theory Spec2Isabelle
  imports Complex_Main "HOL-Library.Type_Length" "HOL-Library.Log_Nat"
begin

section \<open>Floating-point values and Python errors\<close>

text \<open>
  The sources compute with Python floats and numpy \<open>float64\<close> values. A value is a real
  number or one of \<open>inf\<close>, \<open>-inf\<close>, \<open>nan\<close>, which numpy produces instead of raising. The
  type argument \<open>'p\<close> is the precision: every operation rounds its exact result to
  \<open>LENGTH('p)\<close> significant bits, to nearest with ties to even, with the exponent range of
  binary64 (least normal \<open>2^-1022\<close>, gradual underflow, overflow to \<open>inf\<close> from \<open>2^1024\<close>).
  \<open>53 npfloat\<close> is binary64, the format of both Python floats and \<open>float64\<close>.
  \<open>0 npfloat\<close> is the format without rounding of the significand (only overflow is kept);
  it is used where a statement is about the formula that is evaluated. Library
  functions (\<open>exp\<close>, \<open>log\<close>, \<open>sqrt\<close>, \<open>**\<close>, \<open>norm.cdf\<close>) are taken as correctly rounded.
  The sign of zero is not modelled.
\<close>
datatype 'p npfloat = Fin real | PInf | MInf | NaN

datatype py_error = ValueError | ZeroDivisionError | IndexError | OverflowError

text \<open>Rounding of a real to an integer, ties to even.\<close>

definition round_even :: "real \<Rightarrow> int" where
  "round_even q =
     (let f = \<lfloor>q\<rfloor>; d = q - of_int f
      in if d < 1 / 2 then f else if 1 / 2 < d then f + 1 else if even f then f else f + 1)"

text \<open>
  Rounding to precision \<open>p\<close>: the magnitude is scaled so that the least subnormal is 1;
  \<open>s\<close> is the number of bits it has beyond \<open>p\<close>, and the value is rounded to a multiple of
  \<open>2^s\<close>. Precision 0 does not round.
\<close>

definition rne :: "nat \<Rightarrow> real \<Rightarrow> real" where
  "rne p x =
     (if p = 0 then x
      else let y = \<bar>x\<bar> * 2 ^ (1021 + p);
               s = floorlog 2 (nat \<lfloor>y\<rfloor>) - p
           in sgn x * (of_int (round_even (y / 2 ^ s)) * 2 ^ s / 2 ^ (1021 + p)))"

text \<open>The float nearest to a real: \<open>inf\<close> when the rounded magnitude reaches \<open>2^1024\<close>.\<close>

definition fl :: "real \<Rightarrow> 'p::len0 npfloat" where
  "fl x = (let r = rne LENGTH('p) x
           in if 2 ^ 1024 \<le> \<bar>r\<bar> then (if 0 < r then PInf else MInf) else Fin r)"

text \<open>The rounding of a scaled magnitude: \<open>rne p x\<close> is \<open>sgn x * rne_scaled p (|x| * 2^(1021+p)) / 2^(1021+p)\<close>.\<close>

definition rne_scaled :: "nat \<Rightarrow> real \<Rightarrow> real" where
  "rne_scaled p y = (let s = floorlog 2 (nat \<lfloor>y\<rfloor>) - p in of_int (round_even (y / 2 ^ s)) * 2 ^ s)"

text \<open>Sign of a value that is not \<open>nan\<close>: used by the product and the quotient.\<close>

fun np_sign :: "'p npfloat \<Rightarrow> real" where
  "np_sign (Fin a) = sgn a"
| "np_sign PInf = 1"
| "np_sign MInf = - 1"
| "np_sign NaN = 0"

definition inf_of_sign :: "real \<Rightarrow> 'p npfloat" where
  "inf_of_sign s = (if s = 0 then NaN else if 0 < s then PInf else MInf)"

instantiation npfloat :: (len0) "{zero, one, plus, uminus, minus, times, inverse, abs, ord}"
begin

definition zero_npfloat :: "'a npfloat" where
  "zero_npfloat = Fin 0"

definition one_npfloat :: "'a npfloat" where
  "one_npfloat = Fin 1"

fun plus_npfloat :: "'a npfloat \<Rightarrow> 'a npfloat \<Rightarrow> 'a npfloat" where
  "plus_npfloat NaN y = NaN"
| "plus_npfloat x NaN = NaN"
| "plus_npfloat (Fin a) (Fin b) = fl (a + b)"
| "plus_npfloat PInf MInf = NaN"
| "plus_npfloat MInf PInf = NaN"
| "plus_npfloat PInf y = PInf"
| "plus_npfloat MInf y = MInf"
| "plus_npfloat (Fin a) y = y"

fun uminus_npfloat :: "'a npfloat \<Rightarrow> 'a npfloat" where
  "uminus_npfloat (Fin a) = Fin (- a)"
| "uminus_npfloat PInf = MInf"
| "uminus_npfloat MInf = PInf"
| "uminus_npfloat NaN = NaN"

definition minus_npfloat :: "'a npfloat \<Rightarrow> 'a npfloat \<Rightarrow> 'a npfloat" where
  "minus_npfloat x y = x + (- y)"

fun times_npfloat :: "'a npfloat \<Rightarrow> 'a npfloat \<Rightarrow> 'a npfloat" where
  "times_npfloat NaN y = NaN"
| "times_npfloat x NaN = NaN"
| "times_npfloat (Fin a) (Fin b) = fl (a * b)"
| "times_npfloat x y = inf_of_sign (np_sign x * np_sign y)"

text \<open>
  The numpy quotient: a zero divisor gives \<open>inf\<close>, \<open>-inf\<close> or \<open>nan\<close> (with a warning),
  never an exception. Python's own float division is \<open>py_div\<close> below.
\<close>

fun divide_npfloat :: "'a npfloat \<Rightarrow> 'a npfloat \<Rightarrow> 'a npfloat" where
  "divide_npfloat NaN y = NaN"
| "divide_npfloat x NaN = NaN"
| "divide_npfloat (Fin a) (Fin b) = (if b = 0 then inf_of_sign (sgn a) else fl (a / b))"
| "divide_npfloat (Fin a) y = Fin 0"
| "divide_npfloat x (Fin b) = inf_of_sign (np_sign x * (if b < 0 then - 1 else 1))"
| "divide_npfloat x y = NaN"

definition inverse_npfloat :: "'a npfloat \<Rightarrow> 'a npfloat" where
  "inverse_npfloat x = divide (Fin 1) x"

fun abs_npfloat :: "'a npfloat \<Rightarrow> 'a npfloat" where
  "abs_npfloat (Fin a) = Fin \<bar>a\<bar>"
| "abs_npfloat PInf = PInf"
| "abs_npfloat MInf = PInf"
| "abs_npfloat NaN = NaN"

text \<open>Every comparison with \<open>nan\<close> is false.\<close>

fun less_npfloat :: "'a npfloat \<Rightarrow> 'a npfloat \<Rightarrow> bool" where
  "less_npfloat NaN y = False"
| "less_npfloat x NaN = False"
| "less_npfloat (Fin a) (Fin b) = (a < b)"
| "less_npfloat x PInf = (x \<noteq> PInf)"
| "less_npfloat MInf y = (y \<noteq> MInf)"
| "less_npfloat x y = False"

definition less_eq_npfloat :: "'a npfloat \<Rightarrow> 'a npfloat \<Rightarrow> bool" where
  "less_eq_npfloat x y = (x < y \<or> (x = y \<and> x \<noteq> NaN))"

instance ..

end

fun np_log :: "'p::len0 npfloat \<Rightarrow> 'p npfloat" where
  "np_log (Fin a) = (if 0 < a then fl (ln a) else if a = 0 then MInf else NaN)"
| "np_log PInf = PInf"
| "np_log MInf = NaN"
| "np_log NaN = NaN"

fun np_sqrt :: "'p::len0 npfloat \<Rightarrow> 'p npfloat" where
  "np_sqrt (Fin a) = (if 0 \<le> a then fl (sqrt a) else NaN)"
| "np_sqrt PInf = PInf"
| "np_sqrt MInf = NaN"
| "np_sqrt NaN = NaN"

fun np_exp :: "'p::len0 npfloat \<Rightarrow> 'p npfloat" where
  "np_exp (Fin a) = fl (exp a)"
| "np_exp PInf = PInf"
| "np_exp MInf = Fin 0"
| "np_exp NaN = NaN"

text \<open>
  \<open>x ** y\<close> on numpy floats (IEEE \<open>pow\<close>): a negative finite base with an exponent that is
  not an integer gives \<open>nan\<close>; an overflow gives \<open>inf\<close>.
\<close>

definition odd_integer :: "real \<Rightarrow> bool" where
  "odd_integer y = (y = of_int \<lfloor>y\<rfloor> \<and> odd \<lfloor>y\<rfloor>)"

fun np_power :: "'p::len0 npfloat \<Rightarrow> 'p npfloat \<Rightarrow> 'p npfloat" where
  "np_power x (Fin y) =
     (if y = 0 then Fin 1
      else case x of
        NaN \<Rightarrow> NaN
      | Fin a \<Rightarrow>
          if 0 < a then fl (a powr y)
          else if a = 0 then (if 0 < y then Fin 0 else PInf)
          else if y = of_int \<lfloor>y\<rfloor> then fl ((if odd \<lfloor>y\<rfloor> then - 1 else 1) * (\<bar>a\<bar> powr y))
          else NaN
      | PInf \<Rightarrow> (if 0 < y then PInf else Fin 0)
      | MInf \<Rightarrow> (if 0 < y then (if odd_integer y then MInf else PInf) else Fin 0))"
| "np_power x NaN = (if x = Fin 1 then Fin 1 else NaN)"
| "np_power x PInf =
     (case x of
        NaN \<Rightarrow> NaN
      | Fin a \<Rightarrow> if \<bar>a\<bar> = 1 then Fin 1 else if \<bar>a\<bar> < 1 then Fin 0 else PInf
      | _ \<Rightarrow> PInf)"
| "np_power x MInf =
     (case x of
        NaN \<Rightarrow> NaN
      | Fin a \<Rightarrow> if \<bar>a\<bar> = 1 then Fin 1 else if \<bar>a\<bar> < 1 then PInf else Fin 0
      | _ \<Rightarrow> Fin 0)"

text \<open>
  Python's own float operations differ from numpy's in two places that the sources
  reach: the division raises \<open>ZeroDivisionError\<close> on a zero divisor, and \<open>x ** 2\<close> raises
  \<open>OverflowError\<close> when a finite \<open>x\<close> has a square beyond the range.
\<close>

definition py_div :: "'p::len0 npfloat \<Rightarrow> 'p npfloat \<Rightarrow> py_error + 'p npfloat" where
  "py_div a b = (if b = Fin 0 then Inl ZeroDivisionError else Inr (a / b))"

definition py_square :: "'p::len0 npfloat \<Rightarrow> py_error + 'p npfloat" where
  "py_square x =
     (case x of
        Fin a \<Rightarrow> (case x * x of Fin s \<Rightarrow> Inr (Fin s) | _ \<Rightarrow> Inl OverflowError)
      | NaN \<Rightarrow> Inr NaN
      | _ \<Rightarrow> Inr PInf)"

text \<open>
  Python's \<open>int(x)\<close> on a float truncates toward zero; it raises \<open>OverflowError\<close> on an
  infinity and \<open>ValueError\<close> on \<open>nan\<close>.
\<close>

definition py_int :: "'p npfloat \<Rightarrow> py_error + int" where
  "py_int x =
     (case x of
        Fin a \<Rightarrow> Inr (if 0 \<le> a then \<lfloor>a\<rfloor> else \<lceil>a\<rceil>)
      | NaN \<Rightarrow> Inl ValueError
      | _ \<Rightarrow> Inl OverflowError)"

text \<open>
  Python's builtin \<open>max(a, b)\<close> keeps \<open>a\<close> unless \<open>b > a\<close> (so \<open>max(0, nan)\<close> is 0);
  \<open>np.maximum\<close> propagates \<open>nan\<close>.
\<close>

definition py_max :: "'p::len0 npfloat \<Rightarrow> 'p npfloat \<Rightarrow> 'p npfloat" where
  "py_max a b = (if a < b then b else a)"

definition np_maximum :: "'p::len0 npfloat \<Rightarrow> 'p npfloat \<Rightarrow> 'p npfloat" where
  "np_maximum a b = (if a = NaN \<or> b = NaN then NaN else if a < b then b else a)"

text \<open>
  A scalar that a caller hands over is a Python float or a numpy \<open>float64\<close>; the two
  behave alike except in the division and the square above. The arguments whose kind
  decides whether an operation raises carry it.
\<close>

datatype 'p scalar = PyFloat "'p npfloat" | NpFloat "'p npfloat"

fun val :: "'p scalar \<Rightarrow> 'p npfloat" where
  "val (PyFloat x) = x"
| "val (NpFloat x) = x"

fun scalar_div :: "'p::len0 scalar \<Rightarrow> 'p scalar \<Rightarrow> py_error + 'p npfloat" where
  "scalar_div (PyFloat x) (PyFloat y) = py_div x y"
| "scalar_div a b = Inr (val a / val b)"

fun scalar_square :: "'p::len0 scalar \<Rightarrow> py_error + 'p npfloat" where
  "scalar_square (PyFloat x) = py_square x"
| "scalar_square (NpFloat x) = Inr (x * x)"

section \<open>The square-root short-rate model (models/interest\_rate/cir.py)\<close>

text \<open>
  The object state of a \<open>CIR\<close> model. The base class \<open>InterestRateModel\<close> is not among
  the sources; the fields it stores (\<open>r0\<close>, the parameters, \<open>timesteps\<close>, \<open>time_horizon\<close>,
  \<open>dt\<close>) are read off their uses in \<open>cir.py\<close> and \<open>simulation.py\<close>. The parameters are the
  Python floats the caller supplied, taken finite; \<open>r0\<close> is overwritten with computed
  rates by the hedging simulator, so it is a computed value.
\<close>

record 'p cir_model =
  r0 :: "'p npfloat"
  kappa :: real
  theta :: real
  sigma :: real
  timesteps :: int
  time_horizon :: real
  dt :: real

text \<open>
  The two checks of \<open>CIR.__init__\<close>: \<open>r0 <= 0\<close> and \<open>2 * kappa * theta <= sigma**2\<close>
  (where \<open>sigma**2\<close> may raise). A model that passes them is constructed.
\<close>

definition cir_init_ok :: "'p::len0 cir_model \<Rightarrow> bool" where
  "cir_init_ok m =
     (\<not> r0 m \<le> Fin 0 \<and>
      (case py_square (Fin (sigma m)) of
         Inl e \<Rightarrow> False
       | Inr s2 \<Rightarrow> \<not> Fin 2 * Fin (kappa m) * Fin (theta m) \<le> s2))"

text \<open>
  \<open>CIR.zero_coupon_bond_price\<close>. \<open>kappa**2\<close> and \<open>sigma**2\<close> are squares of Python floats
  and the exponent \<open>2 * kappa * theta / sigma**2\<close> is a division of Python floats; the
  other operations are numpy's, from \<open>np.sqrt\<close> on.
\<close>

definition zero_coupon_bond_price ::
  "'p::len0 cir_model \<Rightarrow> 'p npfloat \<Rightarrow> 'p npfloat \<Rightarrow> 'p npfloat \<Rightarrow> py_error + 'p npfloat" where
  "zero_coupon_bond_price m t T r =
     (if T \<le> t then Inr (Fin 1)
      else case py_square (Fin (kappa m)) of
        Inl e \<Rightarrow> Inl e
      | Inr k2 \<Rightarrow>
         (case py_square (Fin (sigma m)) of
            Inl e \<Rightarrow> Inl e
          | Inr s2 \<Rightarrow>
              let h = np_sqrt (k2 + Fin 2 * s2);
                  tau = T - t;
                  A_num = Fin 2 * h * np_exp ((Fin (kappa m) + h) * tau / Fin 2);
                  A_denom = Fin 2 * h + (Fin (kappa m) + h) * (np_exp (h * tau) - Fin 1)
              in case py_div (Fin 2 * Fin (kappa m) * Fin (theta m)) s2 of
                   Inl e \<Rightarrow> Inl e
                 | Inr p \<Rightarrow>
                     let A = np_power (A_num / A_denom) p;
                         B_num = Fin 2 * (np_exp (h * tau) - Fin 1);
                         B_denom = Fin 2 * h + (Fin (kappa m) + h) * (np_exp (h * tau) - Fin 1);
                         B = B_num / B_denom
                     in Inr (A * np_exp (- B * r))))"

text \<open>
  The closed form as the specification words it, evaluated in floats:
  \<open>h = sqrt(kappa^2 + 2 sigma^2)\<close>, \<open>tau = T - t\<close>,
  \<open>A = (2h exp((kappa+h) tau/2) / (2h + (kappa+h)(exp(h tau) - 1)))^(2 kappa theta/sigma^2)\<close>,
  \<open>B = 2(exp(h tau) - 1) / (2h + (kappa+h)(exp(h tau) - 1))\<close>, and the price
  \<open>A exp(-B r)\<close>.
\<close>

definition spec_h :: "'p::len0 cir_model \<Rightarrow> 'p npfloat" where
  "spec_h m = np_sqrt (Fin (kappa m) * Fin (kappa m) + Fin 2 * (Fin (sigma m) * Fin (sigma m)))"

definition spec_A :: "'p::len0 cir_model \<Rightarrow> 'p npfloat \<Rightarrow> 'p npfloat" where
  "spec_A m tau =
     np_power
       (Fin 2 * spec_h m * np_exp ((Fin (kappa m) + spec_h m) * tau / Fin 2) /
        (Fin 2 * spec_h m + (Fin (kappa m) + spec_h m) * (np_exp (spec_h m * tau) - Fin 1)))
       (Fin 2 * Fin (kappa m) * Fin (theta m) / (Fin (sigma m) * Fin (sigma m)))"

definition spec_B :: "'p::len0 cir_model \<Rightarrow> 'p npfloat \<Rightarrow> 'p npfloat" where
  "spec_B m tau =
     Fin 2 * (np_exp (spec_h m * tau) - Fin 1) /
     (Fin 2 * spec_h m + (Fin (kappa m) + spec_h m) * (np_exp (spec_h m * tau) - Fin 1))"

definition spec_bond_price :: "'p::len0 cir_model \<Rightarrow> 'p npfloat \<Rightarrow> 'p npfloat \<Rightarrow> 'p npfloat" where
  "spec_bond_price m tau r = spec_A m tau * np_exp (- spec_B m tau * r)"

section \<open>Option pricers (models/derivatives/option\_pricing.py)\<close>

text \<open>
  \<open>scipy.stats.norm.cdf\<close>: the standard normal distribution function, here by its power
  series \<open>1/2 + (1/sqrt(2 pi)) * sum_n (-1)^n x^(2n+1) / (2^n n! (2n+1))\<close>; at \<open>inf\<close> and \<open>-inf\<close>
  it is 1 and 0.
\<close>

definition cdf_term :: "real \<Rightarrow> nat \<Rightarrow> real" where
  "cdf_term x n = (- 1) ^ n * x ^ (2 * n + 1) / (2 ^ n * fact n * real (2 * n + 1))"

definition std_normal_cdf :: "real \<Rightarrow> real" where
  "std_normal_cdf x = 1 / 2 + (\<Sum>n. cdf_term x n) / sqrt (2 * pi)"

fun norm_cdf :: "'p::len0 npfloat \<Rightarrow> 'p npfloat" where
  "norm_cdf (Fin x) = fl (std_normal_cdf x)"
| "norm_cdf PInf = Fin 1"
| "norm_cdf MInf = Fin 0"
| "norm_cdf NaN = NaN"

text \<open>
  The part of the Black formula that the three pricing functions share word for word:
  \<open>d1 = (np.log(forward / strike) + (volatility**2 / 2) * t) / (volatility * np.sqrt(t))\<close>
  and \<open>d2 = d1 - volatility * np.sqrt(t)\<close>. The quotient \<open>forward / strike\<close> raises on a
  zero strike when both are Python floats, and \<open>volatility**2\<close> raises on overflow when
  the volatility is a Python float; the quotient is evaluated first.
\<close>

definition black_d1_d2 ::
  "'p::len0 scalar \<Rightarrow> 'p scalar \<Rightarrow> 'p npfloat \<Rightarrow> 'p scalar \<Rightarrow> py_error + ('p npfloat \<times> 'p npfloat)" where
  "black_d1_d2 forward_rate strike time_to_maturity volatility =
     (case scalar_div forward_rate strike of
        Inl e \<Rightarrow> Inl e
      | Inr q \<Rightarrow>
         (case scalar_square volatility of
            Inl e \<Rightarrow> Inl e
          | Inr v2 \<Rightarrow>
              let d1 = (np_log q + (v2 / Fin 2) * time_to_maturity) /
                       (val volatility * np_sqrt time_to_maturity);
                  d2 = d1 - val volatility * np_sqrt time_to_maturity
              in Inr (d1, d2)))"

text \<open>\<open>CapFloorPricer.black_price_caplet\<close> and \<open>black_price_floorlet\<close>.\<close>

definition black_price_caplet ::
  "'p::len0 scalar \<Rightarrow> 'p scalar \<Rightarrow> 'p npfloat \<Rightarrow> 'p scalar \<Rightarrow> 'p npfloat \<Rightarrow> 'p npfloat \<Rightarrow> 'p npfloat \<Rightarrow>
   py_error + 'p npfloat" where
  "black_price_caplet forward_rate strike time_to_maturity volatility discount_factor notional delta_t =
     (if time_to_maturity \<le> Fin 0
      then Inr (py_max (Fin 0) (val forward_rate - val strike) * discount_factor * notional * delta_t)
      else case black_d1_d2 forward_rate strike time_to_maturity volatility of
             Inl e \<Rightarrow> Inl e
           | Inr (d1, d2) \<Rightarrow>
               Inr (discount_factor * notional * delta_t *
                    (val forward_rate * norm_cdf d1 - val strike * norm_cdf d2)))"

definition black_price_floorlet ::
  "'p::len0 scalar \<Rightarrow> 'p scalar \<Rightarrow> 'p npfloat \<Rightarrow> 'p scalar \<Rightarrow> 'p npfloat \<Rightarrow> 'p npfloat \<Rightarrow> 'p npfloat \<Rightarrow>
   py_error + 'p npfloat" where
  "black_price_floorlet forward_rate strike time_to_maturity volatility discount_factor notional delta_t =
     (if time_to_maturity \<le> Fin 0
      then Inr (py_max (Fin 0) (val strike - val forward_rate) * discount_factor * notional * delta_t)
      else case black_d1_d2 forward_rate strike time_to_maturity volatility of
             Inl e \<Rightarrow> Inl e
           | Inr (d1, d2) \<Rightarrow>
               Inr (discount_factor * notional * delta_t *
                    (val strike * norm_cdf (- d2) - val forward_rate * norm_cdf (- d1))))"

text \<open>
  \<open>np.arange(start, stop, step)\<close> on Python floats. The length is the ceiling of
  \<open>(stop - start) / step\<close>, a Python division (a zero step raises); a \<open>nan\<close> there is a
  \<open>ValueError\<close>, a value beyond the index range an \<open>OverflowError\<close>. The entries are
  \<open>start\<close>, \<open>next = start + step\<close>, and from the third on \<open>start + i * delta\<close> with
  \<open>delta = next - start\<close>, each operation rounded. (A failure to allocate a long array
  is not modelled.)
\<close>

definition np_arange :: "'p::len0 npfloat \<Rightarrow> 'p npfloat \<Rightarrow> 'p npfloat \<Rightarrow> py_error + 'p npfloat list" where
  "np_arange start stop step =
     (case py_div (stop - start) step of
        Inl e \<Rightarrow> Inl e
      | Inr NaN \<Rightarrow> Inl ValueError
      | Inr PInf \<Rightarrow> Inl OverflowError
      | Inr MInf \<Rightarrow> Inl OverflowError
      | Inr (Fin v) \<Rightarrow>
          if \<lceil>v\<rceil> < - (2 ^ 63) \<or> 2 ^ 63 \<le> \<lceil>v\<rceil> then Inl OverflowError
          else let next = start + step;
                   delta = next - start
               in Inr (map (\<lambda>i. if i = 0 then start else if i = 1 then next
                                  else start + Fin (real i) * delta)
                         [0..<nat \<lceil>v\<rceil>]))"

text \<open>The literal \<open>1e-10\<close> and the default volatility \<open>0.2\<close>.\<close>

definition slack :: "'p::len0 npfloat" where
  "slack = fl (1 / 10 ^ 10)"

text \<open>
  The pricers receive their rate model as an object with a current rate \<open>r0\<close> and the
  methods \<open>forward_rate(t, T1, T2, r)\<close> and \<open>zero_coupon_bond_price(t, T, r)\<close>; any model
  class can stand there, so the two methods are fields of the record.
\<close>

record 'p rate_model =
  rm_r0 :: "'p npfloat"
  rm_forward_rate :: "'p npfloat \<Rightarrow> 'p npfloat \<Rightarrow> 'p npfloat \<Rightarrow> 'p npfloat \<Rightarrow> py_error + 'p scalar"
  rm_zero_coupon_bond_price :: "'p npfloat \<Rightarrow> 'p npfloat \<Rightarrow> 'p npfloat \<Rightarrow> py_error + 'p npfloat"

text \<open>The fallback \<open>vol = volatility if volatility is not None else 0.2\<close>.\<close>

definition vol_or_default :: "'p::len0 scalar option \<Rightarrow> 'p scalar" where
  "vol_or_default volatility = (case volatility of None \<Rightarrow> PyFloat (fl (1 / 5)) | Some v \<Rightarrow> v)"

text \<open>
  The fixing periods of a schedule: the period of the payment date at index \<open>idx\<close> starts
  at \<open>start_date\<close> for \<open>idx = 0\<close> and at \<open>payment_dates[idx-1]\<close> otherwise.
\<close>

definition fixing_periods :: "'p npfloat \<Rightarrow> 'p npfloat list \<Rightarrow> ('p npfloat \<times> 'p npfloat) list" where
  "fixing_periods start_date payment_dates = zip (start_date # payment_dates) payment_dates"

text \<open>
  The loop over the payment dates, which \<open>price_cap\<close> and \<open>price_floor\<close> share word for
  word but for the Black function they call (the argument \<open>black\<close>); \<open>acc\<close> is the running
  total \<open>cap_price\<close> (\<open>floor_price\<close>).
\<close>

fun period_loop ::
  "('p::len0 scalar \<Rightarrow> 'p scalar \<Rightarrow> 'p npfloat \<Rightarrow> 'p scalar \<Rightarrow> 'p npfloat \<Rightarrow> 'p npfloat \<Rightarrow> 'p npfloat \<Rightarrow>
    py_error + 'p npfloat) \<Rightarrow>
   'p rate_model \<Rightarrow> 'p npfloat \<Rightarrow> 'p npfloat \<Rightarrow> 'p scalar \<Rightarrow> 'p npfloat \<Rightarrow> 'p npfloat \<Rightarrow> 'p scalar option \<Rightarrow>
   ('p npfloat \<times> 'p npfloat) list \<Rightarrow> 'p npfloat \<Rightarrow> py_error + 'p npfloat" where
  "period_loop black rm valuation_date current_rate strike payment_frequency notional volatility [] acc =
     Inr acc"
| "period_loop black rm valuation_date current_rate strike payment_frequency notional volatility
     ((fixing_start, payment_date) # periods) acc =
     (case rm_forward_rate rm valuation_date fixing_start payment_date current_rate of
        Inl e \<Rightarrow> Inl e
      | Inr forward_rate \<Rightarrow>
         (case rm_zero_coupon_bond_price rm valuation_date payment_date current_rate of
            Inl e \<Rightarrow> Inl e
          | Inr discount_factor \<Rightarrow>
             (case black forward_rate strike (py_max (Fin 0) (fixing_start - valuation_date))
                     (vol_or_default volatility) discount_factor notional payment_frequency of
                Inl e \<Rightarrow> Inl e
              | Inr price \<Rightarrow>
                  period_loop black rm valuation_date current_rate strike payment_frequency
                    notional volatility periods (acc + price))))"

definition price_cap ::
  "'p::len0 rate_model \<Rightarrow> 'p npfloat \<Rightarrow> 'p npfloat \<Rightarrow> 'p npfloat \<Rightarrow> 'p scalar \<Rightarrow> 'p npfloat \<Rightarrow> 'p npfloat \<Rightarrow>
   'p scalar option \<Rightarrow> py_error + 'p npfloat" where
  "price_cap rm valuation_date start_date end_date strike payment_frequency notional volatility =
     (case np_arange (start_date + payment_frequency) (end_date + slack) payment_frequency of
        Inl e \<Rightarrow> Inl e
      | Inr payment_dates \<Rightarrow>
          period_loop black_price_caplet rm valuation_date (rm_r0 rm) strike payment_frequency
            notional volatility (fixing_periods start_date payment_dates) (Fin 0))"

definition price_floor ::
  "'p::len0 rate_model \<Rightarrow> 'p npfloat \<Rightarrow> 'p npfloat \<Rightarrow> 'p npfloat \<Rightarrow> 'p scalar \<Rightarrow> 'p npfloat \<Rightarrow> 'p npfloat \<Rightarrow>
   'p scalar option \<Rightarrow> py_error + 'p npfloat" where
  "price_floor rm valuation_date start_date end_date strike payment_frequency notional volatility =
     (case np_arange (start_date + payment_frequency) (end_date + slack) payment_frequency of
        Inl e \<Rightarrow> Inl e
      | Inr payment_dates \<Rightarrow>
          period_loop black_price_floorlet rm valuation_date (rm_r0 rm) strike payment_frequency
            notional volatility (fixing_periods start_date payment_dates) (Fin 0))"

text \<open>\<open>SwaptionPricer.black_price\<close>, with the same \<open>d1\<close> and \<open>d2\<close> as the caplet.\<close>

definition black_price ::
  "'p::len0 scalar \<Rightarrow> 'p scalar \<Rightarrow> 'p npfloat \<Rightarrow> 'p npfloat \<Rightarrow> 'p scalar \<Rightarrow> bool \<Rightarrow> py_error + 'p npfloat" where
  "black_price forward_swap_rate strike swap_annuity time_to_expiry volatility is_payer =
     (if time_to_expiry \<le> Fin 0
      then (if is_payer then Inr (py_max (Fin 0) (val forward_swap_rate - val strike) * swap_annuity)
            else Inr (py_max (Fin 0) (val strike - val forward_swap_rate) * swap_annuity))
      else case black_d1_d2 forward_swap_rate strike time_to_expiry volatility of
             Inl e \<Rightarrow> Inl e
           | Inr (d1, d2) \<Rightarrow>
               if is_payer
               then Inr (swap_annuity * (val forward_swap_rate * norm_cdf d1 - val strike * norm_cdf d2))
               else Inr (swap_annuity * (val strike * norm_cdf (- d2) - val forward_swap_rate * norm_cdf (- d1))))"

text \<open>The annuity loop of \<open>SwaptionPricer.price\<close>; \<open>acc\<close> is \<open>swap_annuity\<close>.\<close>

fun annuity_loop ::
  "'p::len0 rate_model \<Rightarrow> 'p npfloat \<Rightarrow> 'p npfloat \<Rightarrow> 'p npfloat \<Rightarrow> 'p npfloat \<Rightarrow> 'p npfloat list \<Rightarrow> 'p npfloat \<Rightarrow>
   py_error + 'p npfloat" where
  "annuity_loop rm valuation_date current_rate payment_frequency notional [] acc = Inr acc"
| "annuity_loop rm valuation_date current_rate payment_frequency notional (payment_date # dates) acc =
     (case rm_zero_coupon_bond_price rm valuation_date payment_date current_rate of
        Inl e \<Rightarrow> Inl e
      | Inr discount_factor \<Rightarrow>
          annuity_loop rm valuation_date current_rate payment_frequency notional dates
            (acc + payment_frequency * discount_factor * notional))"

text \<open>
  \<open>SwaptionPricer.price\<close>. The swap pricer is an injected object of which only
  \<open>par_rate(start, end, frequency)\<close> is called; it is the argument \<open>par_rate\<close>. The only
  validation is the test \<open>expiry_date < underlying_swap_start\<close>.
\<close>

definition swaption_price ::
  "'p::len0 rate_model \<Rightarrow> ('p npfloat \<Rightarrow> 'p npfloat \<Rightarrow> 'p npfloat \<Rightarrow> py_error + 'p scalar) \<Rightarrow>
   'p npfloat \<Rightarrow> 'p npfloat \<Rightarrow> 'p npfloat \<Rightarrow> 'p npfloat \<Rightarrow> 'p scalar \<Rightarrow> 'p npfloat \<Rightarrow> 'p npfloat \<Rightarrow>
   'p scalar option \<Rightarrow> bool \<Rightarrow> py_error + 'p npfloat" where
  "swaption_price rm par_rate valuation_date expiry_date underlying_swap_start underlying_swap_end
     strike payment_frequency notional volatility is_payer =
     (if expiry_date < underlying_swap_start then Inl ValueError
      else
        let current_rate = rm_r0 rm;
            time_to_expiry = py_max (Fin 0) (expiry_date - valuation_date)
        in case par_rate underlying_swap_start underlying_swap_end payment_frequency of
             Inl e \<Rightarrow> Inl e
           | Inr forward_swap_rate \<Rightarrow>
              (case np_arange (underlying_swap_start + payment_frequency)
                      (underlying_swap_end + slack) payment_frequency of
                 Inl e \<Rightarrow> Inl e
               | Inr payment_dates \<Rightarrow>
                  (case annuity_loop rm valuation_date current_rate payment_frequency notional
                          payment_dates (Fin 0) of
                     Inl e \<Rightarrow> Inl e
                   | Inr swap_annuity \<Rightarrow>
                       black_price forward_swap_rate strike swap_annuity time_to_expiry
                         (vol_or_default volatility) is_payer)))"

text \<open>A rate model with flat answers and a flat par rate, for concrete runs.\<close>

definition flat_rate_model :: "'p::len0 rate_model" where
  "flat_rate_model = \<lparr>rm_r0 = fl (3 / 100),
                       rm_forward_rate = (\<lambda>t T1 T2 r. Inr (NpFloat (fl (3 / 100)))),
                       rm_zero_coupon_bond_price = (\<lambda>t T r. Inr (Fin 1))\<rparr>"

definition flat_par_rate :: "'p::len0 npfloat \<Rightarrow> 'p npfloat \<Rightarrow> 'p npfloat \<Rightarrow> py_error + 'p scalar" where
  "flat_par_rate start_date end_date payment_frequency = Inr (NpFloat (fl (3 / 100)))"

section \<open>Yield to maturity (arbitrage/bond\_pricing.py)\<close>

text \<open>
  The coupon dates that \<open>price_difference\<close> computes:
  \<open>np.arange(valuation_date + frequency, maturity + 1e-10, frequency)\<close>, replaced when
  \<open>valuation_date > 0\<close> by the dates of \<open>np.arange(frequency, maturity + 1e-10, frequency)\<close>
  that are greater than \<open>valuation_date\<close>. The first \<open>np.arange\<close> is evaluated in both
  cases.
\<close>

definition coupon_dates ::
  "'p::len0 npfloat \<Rightarrow> 'p npfloat \<Rightarrow> 'p npfloat \<Rightarrow> py_error + 'p npfloat list" where
  "coupon_dates valuation_date maturity frequency =
     (case np_arange (valuation_date + frequency) (maturity + slack) frequency of
        Inl e \<Rightarrow> Inl e
      | Inr dates \<Rightarrow>
          if Fin 0 < valuation_date
          then (case np_arange frequency (maturity + slack) frequency of
                  Inl e \<Rightarrow> Inl e
                | Inr original_coupon_dates \<Rightarrow>
                    Inr (filter (\<lambda>d. valuation_date < d) original_coupon_dates))
          else Inr dates)"

text \<open>
  The nested function \<open>price_difference(ytm)\<close> of \<open>calculate_yield_to_maturity\<close>, with the
  variables it closes over as arguments. The loop over the coupon dates is the fold.
\<close>

definition price_difference ::
  "'p::len0 npfloat \<Rightarrow> 'p npfloat \<Rightarrow> 'p npfloat \<Rightarrow> 'p npfloat \<Rightarrow> 'p npfloat \<Rightarrow> 'p npfloat \<Rightarrow> 'p npfloat \<Rightarrow>
   py_error + 'p npfloat" where
  "price_difference bond_price maturity coupon_rate frequency notional valuation_date ytm =
     (case coupon_dates valuation_date maturity frequency of
        Inl e \<Rightarrow> Inl e
      | Inr dates \<Rightarrow>
          let coupon_amount = notional * coupon_rate * frequency;
              price = foldl (\<lambda>price coupon_date.
                         price + coupon_amount * np_exp (- ytm * (coupon_date - valuation_date)))
                       (Fin 0) dates;
              price = price + notional * np_exp (- ytm * (maturity - valuation_date))
          in Inr (price - bond_price))"

text \<open>
  The loop \<open>for _ in range(max_iterations)\<close>, with the number of iterations left as the
  recursion argument. \<open>price_difference(mid_rate)\<close> is called twice, as in the source.
\<close>

fun bisection_loop ::
  "('p::len0 npfloat \<Rightarrow> py_error + 'p npfloat) \<Rightarrow> 'p npfloat \<Rightarrow> nat \<Rightarrow> 'p npfloat \<Rightarrow> 'p npfloat \<Rightarrow>
   py_error + 'p npfloat" where
  "bisection_loop f precision 0 low_rate high_rate = Inr ((low_rate + high_rate) / Fin 2)"
| "bisection_loop f precision (Suc n) low_rate high_rate =
     (let mid_rate = (low_rate + high_rate) / Fin 2 in
      case f mid_rate of
        Inl e \<Rightarrow> Inl e
      | Inr fm \<Rightarrow>
          if \<bar>fm\<bar> < precision then Inr mid_rate
          else (case f mid_rate of
                  Inl e \<Rightarrow> Inl e
                | Inr fm' \<Rightarrow>
                   (case f low_rate of
                      Inl e \<Rightarrow> Inl e
                    | Inr f_low \<Rightarrow>
                        if fm' * f_low < Fin 0
                        then bisection_loop f precision n low_rate mid_rate
                        else bisection_loop f precision n mid_rate high_rate)))"

text \<open>\<open>calculate_yield_to_maturity\<close>; the bracket is \<open>[0.0001, 0.5]\<close>.\<close>

definition calculate_yield_to_maturity ::
  "'p::len0 npfloat \<Rightarrow> 'p npfloat \<Rightarrow> 'p npfloat \<Rightarrow> 'p npfloat \<Rightarrow> 'p npfloat \<Rightarrow> 'p npfloat \<Rightarrow> int \<Rightarrow> 'p npfloat \<Rightarrow>
   py_error + 'p npfloat" where
  "calculate_yield_to_maturity bond_price maturity coupon_rate frequency notional valuation_date
     max_iterations precision =
     (if maturity \<le> valuation_date then Inr (Fin 0)
      else bisection_loop
             (price_difference bond_price maturity coupon_rate frequency notional valuation_date)
             precision (nat max_iterations) (fl (1 / 10000)) (Fin (1 / 2)))"

text \<open>
  The bisection as the specification words it: the flat-rate price function \<open>f\<close> over the
  retained coupon dates, and the search that returns \<open>mid\<close> as soon as
  \<open>|f(mid)| < precision\<close>, sets \<open>low = mid\<close> when \<open>f(mid) * f(low) \<ge> 0\<close> and \<open>high = mid\<close>
  when \<open>f(mid) * f(low) < 0\<close>, and returns the midpoint when the iterations are
  exhausted. The specification names no third case: where the product is neither
  (a \<open>nan\<close>), the search has no result (\<open>None\<close>).
\<close>

definition spec_flat_price ::
  "'p::len0 npfloat list \<Rightarrow> 'p npfloat \<Rightarrow> 'p npfloat \<Rightarrow> 'p npfloat \<Rightarrow> 'p npfloat \<Rightarrow> 'p npfloat \<Rightarrow>
   'p npfloat \<Rightarrow> 'p npfloat \<Rightarrow> 'p npfloat" where
  "spec_flat_price retained bond_price maturity coupon_rate frequency notional valuation_date y =
     foldl (+) (Fin 0)
       (map (\<lambda>d. notional * coupon_rate * frequency * np_exp (- y * (d - valuation_date))) retained)
     + notional * np_exp (- y * (maturity - valuation_date)) - bond_price"

fun spec_bisection ::
  "('p::len0 npfloat \<Rightarrow> 'p npfloat) \<Rightarrow> 'p npfloat \<Rightarrow> nat \<Rightarrow> 'p npfloat \<Rightarrow> 'p npfloat \<Rightarrow> 'p npfloat option" where
  "spec_bisection f precision 0 low high = Some ((low + high) / Fin 2)"
| "spec_bisection f precision (Suc n) low high =
     (let mid = (low + high) / Fin 2 in
      if \<bar>f mid\<bar> < precision then Some mid
      else if Fin 0 \<le> f mid * f low then spec_bisection f precision n mid high
      else if f mid * f low < Fin 0 then spec_bisection f precision n low mid
      else None)"

section \<open>Path simulation (CIR.simulate\_rates)\<close>

text \<open>
  numpy's global random generator: \<open>np.random.seed(seed)\<close> replaces its state by one that
  depends on the seed alone (and raises for a seed it rejects); a draw reads and advances
  the state. The generator is not part of the repository: its two operations are the
  fields of \<open>np_random\<close>, for any type \<open>'g\<close> of states, and every function that draws takes
  the state and returns the new one.
\<close>

record 'g np_random =
  rng_seed :: "int \<Rightarrow> py_error + 'g"
  rng_standard_normal :: "'g \<Rightarrow> real \<times> 'g"

fun draw_standard_normals :: "'g np_random \<Rightarrow> nat \<Rightarrow> 'g \<Rightarrow> real list \<times> 'g" where
  "draw_standard_normals rng 0 g = ([], g)"
| "draw_standard_normals rng (Suc n) g =
     (let (z, g1) = rng_standard_normal rng g;
          (zs, g2) = draw_standard_normals rng n g1
      in (z # zs, g2))"

text \<open>
  \<open>np.random.normal(loc, scale, n)\<close>: \<open>n\<close> values \<open>loc + scale * z\<close> for standard
  normal draws \<open>z\<close>; a negative scale raises \<open>ValueError\<close> (a \<open>nan\<close> scale does not).
\<close>

definition np_random_normal ::
  "'g np_random \<Rightarrow> 'p::len0 npfloat \<Rightarrow> 'p npfloat \<Rightarrow> nat \<Rightarrow> 'g \<Rightarrow> py_error + ('p npfloat list \<times> 'g)" where
  "np_random_normal rng loc scale n g =
     (if scale < Fin 0 then Inl ValueError
      else let (zs, g1) = draw_standard_normals rng n g
           in Inr (map (\<lambda>z. loc + scale * Fin z) zs, g1))"

text \<open>
  One entry of the vectorised update
  \<open>rates[:, t] = np.maximum(0, rates[:, t-1] + drift + diffusion)\<close> with
  \<open>drift = kappa * (theta - np.maximum(0, rates[:, t-1])) * dt\<close> and
  \<open>diffusion = sigma * np.sqrt(np.maximum(0, rates[:, t-1]) * dt) * dW\<close>.
\<close>

definition cir_step :: "'p::len0 cir_model \<Rightarrow> 'p npfloat \<Rightarrow> 'p npfloat \<Rightarrow> 'p npfloat" where
  "cir_step m r dW =
     (let drift = Fin (kappa m) * (Fin (theta m) - np_maximum (Fin 0) r) * Fin (dt m);
          diffusion = Fin (sigma m) * np_sqrt (np_maximum (Fin 0) r * Fin (dt m)) * dW
      in np_maximum (Fin 0) (r + drift + diffusion))"

text \<open>
  The three unused quantities \<open>d\<close>, \<open>c\<close> and \<open>ncp\<close> that each step computes: only
  \<open>d = 4 * kappa * theta / sigma**2\<close> is made of Python operations and can raise; \<open>c\<close> and
  \<open>ncp\<close> are numpy quotients and have no effect.
\<close>

definition unused_d :: "'p::len0 cir_model \<Rightarrow> py_error + 'p npfloat" where
  "unused_d m =
     (case py_square (Fin (sigma m)) of
        Inl e \<Rightarrow> Inl e
      | Inr s2 \<Rightarrow> py_div (Fin 4 * Fin (kappa m) * Fin (theta m)) s2)"

text \<open>
  The loop \<open>for t in range(1, self.timesteps + 1)\<close> over the steps still to do. The array
  \<open>rates\<close> is the list of its rows; column \<open>t\<close> is assigned in place from column \<open>t - 1\<close>
  and the vector \<open>dW\<close>.
\<close>

fun simulate_rates_loop ::
  "'g np_random \<Rightarrow> 'p::len0 cir_model \<Rightarrow> nat \<Rightarrow> nat list \<Rightarrow> 'p npfloat list list \<Rightarrow> 'g \<Rightarrow>
   py_error + ('p npfloat list list \<times> 'g)" where
  "simulate_rates_loop rng m n_paths [] rates g = Inr (rates, g)"
| "simulate_rates_loop rng m n_paths (t # ts) rates g =
     (case np_random_normal rng (Fin 0) (np_sqrt (Fin (dt m))) n_paths g of
        Inl e \<Rightarrow> Inl e
      | Inr (dW, g1) \<Rightarrow>
         (case unused_d m of
            Inl e \<Rightarrow> Inl e
          | Inr d \<Rightarrow>
              simulate_rates_loop rng m n_paths ts
                (map2 (\<lambda>row dw. row[t := cir_step m (row ! (t - 1)) dw]) rates dW) g1))"

text \<open>
  \<open>CIR.simulate_rates(n_paths, seed)\<close>, from the generator state \<open>g\<close>; it starts with
  \<open>if seed is not None: np.random.seed(seed)\<close>. \<open>np.zeros\<close> rejects a
  negative dimension, and the assignment of column 0 fails on an array without columns
  (\<open>timesteps = -1\<close>).
\<close>

definition seed_if_given :: "'g np_random \<Rightarrow> int option \<Rightarrow> 'g \<Rightarrow> py_error + 'g" where
  "seed_if_given rng seed g = (case seed of None \<Rightarrow> Inr g | Some s \<Rightarrow> rng_seed rng s)"

definition simulate_rates ::
  "'g np_random \<Rightarrow> 'p::len0 cir_model \<Rightarrow> int \<Rightarrow> int option \<Rightarrow> 'g \<Rightarrow>
   py_error + ('p npfloat list list \<times> 'g)" where
  "simulate_rates rng m n_paths seed g =
     (case seed_if_given rng seed g of
        Inl e \<Rightarrow> Inl e
      | Inr g0 \<Rightarrow>
          if n_paths < 0 \<or> timesteps m + 1 < 0 then Inl ValueError
          else if timesteps m + 1 = 0 then Inl IndexError
          else simulate_rates_loop rng m (nat n_paths) [1..<nat (timesteps m) + 1]
                 (replicate (nat n_paths) ((replicate (nat (timesteps m + 1)) (Fin 0))[0 := r0 m]))
                 g0)"

text \<open>
  The update of one step as the specification gives it:
  \<open>max(0, r + kappa * (theta - max(0, r)) * dt + sigma * sqrt(max(0, r) * dt) * dW)\<close>.
\<close>

definition spec_cir_update :: "'p::len0 cir_model \<Rightarrow> 'p npfloat \<Rightarrow> 'p npfloat \<Rightarrow> 'p npfloat" where
  "spec_cir_update m r dW =
     np_maximum (Fin 0)
       (r + Fin (kappa m) * (Fin (theta m) - np_maximum (Fin 0) r) * Fin (dt m)
          + Fin (sigma m) * np_sqrt (np_maximum (Fin 0) r * Fin (dt m)) * dW)"

text \<open>A generator for concrete runs: the state counts the draws, every draw is 0.\<close>

definition zero_rng :: "nat np_random" where
  "zero_rng = \<lparr>rng_seed = (\<lambda>s. Inr 0), rng_standard_normal = (\<lambda>g. (0, Suc g))\<rparr>"

section \<open>The hedging simulator (hedging/simulation.py)\<close>

text \<open>
  \<open>np.linspace(start, stop, num)\<close> as numpy computes it: \<open>step = (stop - start) / (num - 1)\<close>,
  the entries \<open>i * step + start\<close> (or \<open>i / (num - 1) * (stop - start) + start\<close> when the step
  is zero), and the last entry set to \<open>stop\<close>; one entry \<open>0 * (stop - start) + start\<close> for
  \<open>num = 1\<close>.
\<close>

definition np_linspace :: "'p::len0 npfloat \<Rightarrow> 'p npfloat \<Rightarrow> nat \<Rightarrow> 'p npfloat list" where
  "np_linspace start stop num =
     (let delta = stop - start;
          y = map (\<lambda>i. Fin (real i)) [0..<num];
          y = (if 0 < num - 1
               then let step = delta / Fin (real (num - 1))
                    in if step = Fin 0 then map (\<lambda>v. v / Fin (real (num - 1)) * delta) y
                       else map (\<lambda>v. v * step) y
               else map (\<lambda>v. v * delta) y);
          y = map (\<lambda>v. v + start) y
      in if 1 < num then y[num - 1 := stop] else y)"

text \<open>
  What the simulator is built with, besides the rate model: the instrument and the
  hedging strategy are injected objects, of which \<open>simulate\<close> calls
  \<open>instrument.price(pricer, valuation_date)\<close> and
  \<open>hedging_strategy.compute_hedge_ratio(time, rate)\<close>. Both price through the shared rate
  model, whose \<open>r0\<close> the simulator assigns before each call, so both take the model's
  current state; they are taken to read it only.
\<close>

record 'p hedging_simulator =
  instrument_price :: "'p cir_model \<Rightarrow> 'p npfloat \<Rightarrow> 'p npfloat"
  compute_hedge_ratio :: "'p cir_model \<Rightarrow> 'p npfloat \<Rightarrow> 'p npfloat \<Rightarrow> 'p npfloat"
  rebalance_frequency :: real

text \<open>
  The loop \<open>while current_time <= time_horizon\<close> that collects \<open>rebalance_steps\<close>. It does
  not end when \<open>current_time\<close> stops growing below the horizon (a frequency that is not
  positive, or one that the sum absorbs): its result is then \<open>None\<close>.
  \<open>int(current_time / dt)\<close> is a division of Python floats and a truncation; both can
  raise. (\<open>horizon\<close>, \<open>delta\<close> and \<open>n_steps\<close> stand for \<open>time_horizon\<close>, \<open>dt\<close> and \<open>timesteps\<close>,
  which name the model's fields here.)
\<close>

partial_function (option) rebalance_loop ::
  "'p::len0 npfloat \<Rightarrow> 'p npfloat \<Rightarrow> 'p npfloat \<Rightarrow> int \<Rightarrow> 'p npfloat \<Rightarrow> int list \<Rightarrow>
   (py_error + int list) option" where
  "rebalance_loop horizon delta frequency n_steps current_time rebalance_steps =
     (if current_time \<le> horizon
      then (case py_div current_time delta of
              Inl e \<Rightarrow> Some (Inl e)
            | Inr q \<Rightarrow>
               (case py_int q of
                  Inl e \<Rightarrow> Some (Inl e)
                | Inr idx \<Rightarrow>
                    rebalance_loop horizon delta frequency n_steps (current_time + frequency)
                      (if idx \<le> n_steps then rebalance_steps @ [idx] else rebalance_steps)))
      else Some (Inr rebalance_steps))"

text \<open>The rows of one path in the five result arrays.\<close>

record 'p path_arrays =
  pa_instrument_values :: "'p npfloat list"
  pa_hedge_values :: "'p npfloat list"
  pa_hedge_ratios :: "'p npfloat list"
  pa_pnl :: "'p npfloat list"
  pa_hedge_costs :: "'p npfloat list"

text \<open>
  The loop \<open>for t in range(1, timesteps + 1)\<close> of one path, over the steps still to do.
  \<open>row\<close> is \<open>rates[path]\<close>; every array has \<open>timesteps + 1\<close> entries, so each index read or
  assigned is in range. The model's \<open>r0\<close> is assigned at every step and never restored.
  The factor \<open>0.0001\<close> is the float literal.
\<close>

fun path_loop ::
  "'p::len0 hedging_simulator \<Rightarrow> 'p npfloat list \<Rightarrow> int list \<Rightarrow> 'p npfloat list \<Rightarrow> nat list \<Rightarrow>
   'p cir_model \<Rightarrow> 'p path_arrays \<Rightarrow> 'p cir_model \<times> 'p path_arrays" where
  "path_loop hs ts_grid rebalance_steps row [] m a = (m, a)"
| "path_loop hs ts_grid rebalance_steps row (t # ts) m a =
     (let m1 = m\<lparr>r0 := row ! t\<rparr>;
          iv = (pa_instrument_values a)[t := instrument_price hs m1 (ts_grid ! t)];
          hv = (pa_hedge_values a)[t := pa_hedge_ratios a ! (t - 1) * row ! t];
          pnl_t = (iv ! t - iv ! (t - 1)) - (hv ! t - hv ! (t - 1))
      in if int t \<in> set rebalance_steps
         then let old_hedge_ratio = pa_hedge_ratios a ! (t - 1);
                  new_hedge_ratio = compute_hedge_ratio hs m1 (ts_grid ! t) (row ! t);
                  transaction_cost = \<bar>new_hedge_ratio - old_hedge_ratio\<bar> * fl (1 / 10000) * row ! t
              in path_loop hs ts_grid rebalance_steps row ts m1
                   \<lparr>pa_instrument_values = iv, pa_hedge_values = hv,
                    pa_hedge_ratios = (pa_hedge_ratios a)[t := new_hedge_ratio],
                    pa_pnl = (pa_pnl a)[t := pa_pnl a ! (t - 1) + (pnl_t - transaction_cost)],
                    pa_hedge_costs = (pa_hedge_costs a)[t := transaction_cost]\<rparr>
         else path_loop hs ts_grid rebalance_steps row ts m1
                \<lparr>pa_instrument_values = iv, pa_hedge_values = hv,
                 pa_hedge_ratios = (pa_hedge_ratios a)[t := pa_hedge_ratios a ! (t - 1)],
                 pa_pnl = (pa_pnl a)[t := pa_pnl a ! (t - 1) + pnl_t],
                 pa_hedge_costs = pa_hedge_costs a\<rparr>)"

text \<open>One iteration of \<open>for path in iterator\<close>: step 0, then the loop over the steps.\<close>

definition simulate_path ::
  "'p::len0 hedging_simulator \<Rightarrow> 'p npfloat list \<Rightarrow> int list \<Rightarrow> nat \<Rightarrow> 'p npfloat list \<Rightarrow> 'p cir_model \<Rightarrow>
   'p cir_model \<times> 'p path_arrays" where
  "simulate_path hs ts_grid rebalance_steps n_steps row m =
     (let m0 = m\<lparr>r0 := row ! 0\<rparr>;
          zeros = replicate (n_steps + 1) (Fin 0);
          hedge_ratio = compute_hedge_ratio hs m0 (ts_grid ! 0) (row ! 0)
      in path_loop hs ts_grid rebalance_steps row [1..<n_steps + 1] m0
           \<lparr>pa_instrument_values = zeros[0 := instrument_price hs m0 (ts_grid ! 0)],
            pa_hedge_values = zeros[0 := hedge_ratio * row ! 0],
            pa_hedge_ratios = zeros[0 := hedge_ratio],
            pa_pnl = zeros[0 := Fin 0],
            pa_hedge_costs = zeros\<rparr>)"

text \<open>
  The loop over the paths: the rows of \<open>rates\<close> in order (there are \<open>n_paths\<close> of them), the
  model handed from one path to the next.
\<close>

fun paths_loop ::
  "'p::len0 hedging_simulator \<Rightarrow> 'p npfloat list \<Rightarrow> int list \<Rightarrow> nat \<Rightarrow> 'p npfloat list list \<Rightarrow>
   'p cir_model \<Rightarrow> 'p path_arrays list \<Rightarrow> 'p cir_model \<times> 'p path_arrays list" where
  "paths_loop hs ts_grid rebalance_steps n_steps [] m finished = (m, finished)"
| "paths_loop hs ts_grid rebalance_steps n_steps (row # rows) m finished =
     (let (m1, a) = simulate_path hs ts_grid rebalance_steps n_steps row m
      in paths_loop hs ts_grid rebalance_steps n_steps rows m1 (finished @ [a]))"

text \<open>The dictionary that \<open>simulate\<close> returns.\<close>

record 'p simulation_results =
  res_times :: "'p npfloat list"
  res_rates :: "'p npfloat list list"
  res_instrument_values :: "'p npfloat list list"
  res_hedge_ratios :: "'p npfloat list list"
  res_hedge_values :: "'p npfloat list list"
  res_hedge_costs :: "'p npfloat list list"
  res_pnl :: "'p npfloat list list"

text \<open>
  The adaptation of the rate model at the start of \<open>simulate\<close>: when the horizon asked
  for differs from the model's, \<open>timesteps\<close> is set to \<open>int(time_horizon / dt)\<close>, a
  division of Python floats and a truncation, and \<open>time_horizon\<close> is overwritten.
\<close>

definition adapt_model :: "'p::len0 cir_model \<Rightarrow> real \<Rightarrow> py_error + 'p cir_model" where
  "adapt_model m horizon =
     (if horizon \<noteq> time_horizon m
      then (case py_div (Fin horizon :: 'p npfloat) (Fin (dt m)) of
              Inl e \<Rightarrow> Inl e
            | Inr q \<Rightarrow>
               (case py_int q of
                  Inl e \<Rightarrow> Inl e
                | Inr n \<Rightarrow> Inr (m\<lparr>time_horizon := horizon, timesteps := n\<rparr>)))
      else Inr m)"

text \<open>
  \<open>HedgingSimulator.simulate(n_paths, time_horizon, seed)\<close> on the simulator \<open>hs\<close> and the
  rate model \<open>m\<close> it shares with its callers, from the generator state \<open>g\<close>;
  \<open>horizon_of\<close> is \<open>if time_horizon is None: time_horizon = self.rate_model.time_horizon\<close>.
  The result holds the dictionary, the model as the call leaves it and the generator
  state; \<open>None\<close> is a call that does not return.
\<close>

definition horizon_of :: "'p cir_model \<Rightarrow> real option \<Rightarrow> real" where
  "horizon_of m horizon_arg = (case horizon_arg of None \<Rightarrow> time_horizon m | Some h \<Rightarrow> h)"

definition simulate ::
  "'g np_random \<Rightarrow> 'p::len0 hedging_simulator \<Rightarrow> 'p cir_model \<Rightarrow> int \<Rightarrow> real option \<Rightarrow> int option \<Rightarrow> 'g \<Rightarrow>
   (py_error + ('p simulation_results \<times> 'p cir_model \<times> 'g)) option" where
  "simulate rng hs m n_paths horizon_arg seed g =
     (let horizon = horizon_of m horizon_arg
      in case adapt_model m horizon of
           Inl e \<Rightarrow> Some (Inl e)
         | Inr m1 \<Rightarrow>
            (case simulate_rates rng m1 n_paths seed g of
               Inl e \<Rightarrow> Some (Inl e)
             | Inr (rates, g1) \<Rightarrow>
                 let n_steps = nat (timesteps m1);
                     ts_grid = np_linspace (Fin 0) (Fin horizon) (n_steps + 1)
                 in case rebalance_loop (Fin horizon) (Fin (dt m1)) (Fin (rebalance_frequency hs))
                           (timesteps m1) (Fin 0) [] of
                      None \<Rightarrow> None
                    | Some (Inl e) \<Rightarrow> Some (Inl e)
                    | Some (Inr rebalance_steps) \<Rightarrow>
                        let (m2, arrays) = paths_loop hs ts_grid rebalance_steps n_steps rates m1 []
                        in Some (Inr (\<lparr>res_times = ts_grid, res_rates = rates,
                                        res_instrument_values = map pa_instrument_values arrays,
                                        res_hedge_ratios = map pa_hedge_ratios arrays,
                                        res_hedge_values = map pa_hedge_values arrays,
                                        res_hedge_costs = map pa_hedge_costs arrays,
                                        res_pnl = map pa_pnl arrays\<rparr>, m2, g1))))"

text \<open>
  Simulators for concrete runs: the instrument is worth the current rate, the hedge
  ratio is the rate; one rebalances every two years, the other every year.
\<close>

definition slow_simulator :: "'p hedging_simulator" where
  "slow_simulator = \<lparr>instrument_price = (\<lambda>m t. r0 m),
                      compute_hedge_ratio = (\<lambda>m t r. r),
                      rebalance_frequency = 2\<rparr>"

definition yearly_simulator :: "'p hedging_simulator" where
  "yearly_simulator = \<lparr>instrument_price = (\<lambda>m t. r0 m),
                        compute_hedge_ratio = (\<lambda>m t r. r),
                        rebalance_frequency = 1\<rparr>"

section \<open>Risk statistics (HedgingSimulator.analyze\_results)\<close>

text \<open>
  The sum of a contiguous \<open>float64\<close> array as numpy's \<open>add.reduce\<close> computes it (pairwise
  summation): fewer than 8 entries are added in order; up to 128 entries are added into
  8 running sums, one entry in eight each, which are then combined in pairs, and the
  entries left over are added in order; a longer array is split in two parts, the first
  of a length that is a multiple of 8.
\<close>

fun block_sums :: "'p::len0 npfloat list \<Rightarrow> 'p npfloat list \<Rightarrow> 'p npfloat list \<times> 'p npfloat list" where
  "block_sums r xs =
     (if 8 \<le> length xs then block_sums (map2 (+) r (take 8 xs)) (drop 8 xs) else (r, xs))"

function pairwise_sum :: "'p::len0 npfloat list \<Rightarrow> 'p npfloat" where
  "pairwise_sum a =
     (if length a < 8 then foldl (+) (Fin 0) a
      else if length a \<le> 128
      then (let (r, rest) = block_sums (take 8 a) (drop 8 a);
                res = ((r ! 0 + r ! 1) + (r ! 2 + r ! 3)) + ((r ! 4 + r ! 5) + (r ! 6 + r ! 7))
            in foldl (+) res rest)
      else pairwise_sum (take (length a div 2 - length a div 2 mod 8) a) +
           pairwise_sum (drop (length a div 2 - length a div 2 mod 8) a))"
  by pat_completeness auto
termination
proof (relation "measure length")
  show "wf (measure length)" by simp
next
  fix a :: "'p npfloat list"
  assume "\<not> length a < 8" and "\<not> length a \<le> 128"
  then have k: "0 < length a div 2 - length a div 2 mod 8 \<and>
                length a div 2 - length a div 2 mod 8 < length a"
    by linarith
  have "length (take (length a div 2 - length a div 2 mod 8) a) < length a"
    unfolding length_take using k by linarith
  then show "(take (length a div 2 - length a div 2 mod 8) a, a) \<in> measure length"
    unfolding in_measure .
  have "length (drop (length a div 2 - length a div 2 mod 8) a) < length a"
    unfolding length_drop using k by linarith
  then show "(drop (length a div 2 - length a div 2 mod 8) a, a) \<in> measure length"
    unfolding in_measure .
qed

text \<open>
  \<open>np.sum\<close> of a row, \<open>np.mean\<close> (the sum divided by the number of entries, \<open>nan\<close> for an
  empty array) and \<open>np.std\<close> (the root of the mean squared deviation from the mean).
\<close>

definition np_sum :: "'p::len0 npfloat list \<Rightarrow> 'p npfloat" where
  "np_sum xs = pairwise_sum xs"

definition np_mean :: "'p::len0 npfloat list \<Rightarrow> 'p npfloat" where
  "np_mean xs = np_sum xs / Fin (real (length xs))"

definition np_std :: "'p::len0 npfloat list \<Rightarrow> 'p npfloat" where
  "np_std xs = np_sqrt (np_mean (map (\<lambda>x. (x - np_mean xs) * (x - np_mean xs)) xs))"

text \<open>
  \<open>np.percentile(a, q)\<close> with numpy's default linear interpolation. The quantile
  \<open>q / 100\<close> outside \<open>[0, 1]\<close> raises \<open>ValueError\<close>; an empty array raises \<open>IndexError\<close>; an
  array that holds a \<open>nan\<close> gives \<open>nan\<close>. Otherwise, with the array sorted, the value at
  the position \<open>(n - 1) * quantile\<close> is interpolated between its two neighbours
  \<open>a\<close> and \<open>b\<close> as \<open>a + (b - a) * t\<close>, or as \<open>b - (b - a) * (1 - t)\<close> when \<open>t >= 0.5\<close>; at the
  last position both neighbours are the last entry.
\<close>

fun np_insort :: "'p::len0 npfloat \<Rightarrow> 'p npfloat list \<Rightarrow> 'p npfloat list" where
  "np_insort x [] = [x]"
| "np_insort x (y # ys) = (if x \<le> y then x # y # ys else y # np_insort x ys)"

definition np_sort :: "'p::len0 npfloat list \<Rightarrow> 'p npfloat list" where
  "np_sort xs = foldr np_insort xs []"

definition lerp :: "'p::len0 npfloat \<Rightarrow> 'p npfloat \<Rightarrow> 'p npfloat \<Rightarrow> 'p npfloat" where
  "lerp a b t = (if Fin (1 / 2) \<le> t then b - (b - a) * (Fin 1 - t) else a + (b - a) * t)"

definition np_percentile :: "'p::len0 npfloat list \<Rightarrow> 'p npfloat \<Rightarrow> py_error + 'p npfloat" where
  "np_percentile a q =
     (let quantile = q / Fin 100 in
      if \<not> (Fin 0 \<le> quantile \<and> quantile \<le> Fin 1) then Inl ValueError
      else if a = [] then Inl IndexError
      else if NaN \<in> set a then Inr NaN
      else let s = np_sort a;
               n = length a;
               virtual = Fin (real (n - 1)) * quantile
           in case virtual of
                Fin v \<Rightarrow>
                  if real (n - 1) \<le> v
                  then Inr (lerp (s ! (n - 1)) (s ! (n - 1)) (virtual - Fin (- 1)))
                  else Inr (lerp (s ! nat \<lfloor>v\<rfloor>) (s ! (nat \<lfloor>v\<rfloor> + 1)) (virtual - Fin (real (nat \<lfloor>v\<rfloor>))))
              | _ \<Rightarrow> Inr NaN)"

text \<open>The dictionary that \<open>analyze_results\<close> returns.\<close>

record 'p analysis =
  mean_pnl :: "'p npfloat"
  std_pnl :: "'p npfloat"
  var :: "'p npfloat"
  expected_shortfall :: "'p npfloat"
  sharpe_ratio :: "'p npfloat"
  mean_hedge_costs :: "'p npfloat"
  final_pnl_distribution :: "'p npfloat list"

text \<open>
  \<open>analyze_results(results, confidence_level)\<close>. \<open>pnl[:, -1]\<close> is the last entry of every
  row; it fails on an array without columns. The argument \<open>path_indices\<close> is not used.
\<close>

definition analyze_results :: "'p::len0 simulation_results \<Rightarrow> 'p npfloat \<Rightarrow> py_error + 'p analysis" where
  "analyze_results results confidence_level =
     (if [] \<in> set (res_pnl results) then Inl IndexError
      else
        let final_pnl = map last (res_pnl results);
            mean = np_mean final_pnl;
            std = np_std final_pnl;
            alpha = Fin 1 - confidence_level
        in case np_percentile final_pnl (alpha * Fin 100) of
             Inl e \<Rightarrow> Inl e
           | Inr v \<Rightarrow>
               let es = np_mean (filter (\<lambda>x. x \<le> v) final_pnl);
                   sharpe = (if Fin 0 < std then mean / std else NaN);
                   total_hedge_costs = map np_sum (res_hedge_costs results)
               in Inr \<lparr>mean_pnl = mean, std_pnl = std, var = v, expected_shortfall = es,
                        sharpe_ratio = sharpe, mean_hedge_costs = np_mean total_hedge_costs,
                        final_pnl_distribution = final_pnl\<rparr>)"

text \<open>
  A constructed model with \<open>sigma = 0\<close> and one with parameters that binary64 holds
  exactly.
\<close>

definition cir_sigma0 :: "'p cir_model" where
  "cir_sigma0 = \<lparr>r0 = Fin (1/32), kappa = 1/2, theta = 1/16, sigma = 0,
                  timesteps = 2, time_horizon = 1/2, dt = 1/4\<rparr>"

definition cir_example :: "'p cir_model" where
  "cir_example = \<lparr>r0 = Fin (1/32), kappa = 1/2, theta = 1/16, sigma = 1/8,
                   timesteps = 2, time_horizon = 1/2, dt = 1/4\<rparr>"

lemma round_even_of_int [simp]: "round_even (of_int n) = n"
  by (simp add: round_even_def)

lemma round_even_bounds: "of_int (round_even q) - 1 / 2 \<le> q \<and> q \<le> of_int (round_even q) + 1 / 2"
  unfolding round_even_def Let_def by (auto; linarith)

lemma round_even_mono: assumes "a \<le> b" shows "round_even a \<le> round_even b"
proof (cases "\<lfloor>a\<rfloor> = \<lfloor>b\<rfloor>")
  case True
  then show ?thesis using assms unfolding round_even_def Let_def by auto
next
  case False
  then have lt: "\<lfloor>a\<rfloor> < \<lfloor>b\<rfloor>" using assms floor_mono[of a b] by linarith
  have "round_even a \<le> \<lfloor>a\<rfloor> + 1" unfolding round_even_def Let_def by auto
  moreover have "\<lfloor>b\<rfloor> \<le> round_even b" unfolding round_even_def Let_def by auto
  ultimately show ?thesis using lt by linarith
qed

lemma round_even_nonneg: "0 \<le> q \<Longrightarrow> 0 \<le> round_even q"
  using round_even_mono[of 0 q] round_even_of_int[of 0] by simp

lemma round_even_ge_int: "of_int n \<le> q \<Longrightarrow> n \<le> round_even q"
  using round_even_mono[of "of_int n" q] by simp

lemma round_even_le_int: "q \<le> of_int n \<Longrightarrow> round_even q \<le> n"
  using round_even_mono[of q "of_int n"] by simp

lemma rne_alt: "p \<noteq> 0 \<Longrightarrow> rne p x = sgn x * (rne_scaled p (\<bar>x\<bar> * 2 ^ (1021 + p)) / 2 ^ (1021 + p))"
  by (simp add: rne_def rne_scaled_def Let_def)

lemma floorlog_real_bounds:
  fixes y :: real
  assumes "0 \<le> y"
  shows "y < 2 ^ floorlog 2 (nat \<lfloor>y\<rfloor>)"
    and "0 < floorlog 2 (nat \<lfloor>y\<rfloor>) \<Longrightarrow> 2 ^ (floorlog 2 (nat \<lfloor>y\<rfloor>) - 1) \<le> y"
proof -
  let ?n = "nat \<lfloor>y\<rfloor>"
  have n: "real ?n \<le> y" "y < real ?n + 1" using assms by linarith+
  show "y < 2 ^ floorlog 2 ?n"
  proof (cases "?n = 0")
    case True then show ?thesis using n by (simp add: floorlog_def)
  next
    case False
    then have "?n < (2::nat) ^ floorlog 2 ?n" using floorlog_bounds[of ?n 2] by simp
    then have "Suc ?n \<le> (2::nat) ^ floorlog 2 ?n" by (rule Suc_leI)
    then have "real (Suc ?n) \<le> real ((2::nat) ^ floorlog 2 ?n)" by (rule of_nat_mono)
    then have "real ?n + 1 \<le> 2 ^ floorlog 2 ?n" by (simp only: of_nat_Suc of_nat_power of_nat_numeral)
    then show ?thesis using n by linarith
  qed
  show "2 ^ (floorlog 2 ?n - 1) \<le> y" if "0 < floorlog 2 ?n"
  proof -
    have "?n \<noteq> 0" using that by (auto simp: floorlog_def)
    then have "(2::nat) ^ (floorlog 2 ?n - 1) \<le> ?n" using floorlog_bounds[of ?n 2] by simp
    then have "real ((2::nat) ^ (floorlog 2 ?n - 1)) \<le> real ?n" by (rule of_nat_mono)
    then have "2 ^ (floorlog 2 ?n - 1) \<le> real ?n" by (simp only: of_nat_power of_nat_numeral)
    then show ?thesis using n by linarith
  qed
qed

lemma rne_scaled_nonneg: "0 \<le> y \<Longrightarrow> 0 \<le> rne_scaled p y"
  by (simp add: rne_scaled_def Let_def round_even_nonneg)

text \<open>Bounds of the rounded value by the powers of two around the argument.\<close>

lemma rne_scaled_upper:
  assumes "0 \<le> y" and "y \<le> 2 ^ k" and "p \<le> k" and "0 < p"
  shows "rne_scaled p y \<le> 2 ^ k"
proof -
  let ?b = "floorlog 2 (nat \<lfloor>y\<rfloor>)"
  let ?s = "?b - p"
  have s_le: "?s \<le> k"
  proof (cases "?b = 0")
    case True then show ?thesis by simp
  next
    case False
    then have "2 ^ (?b - 1) \<le> y" using floorlog_real_bounds(2)[OF assms(1)] by simp
    then have "(2::real) ^ (?b - 1) \<le> 2 ^ k" using assms(2) by linarith
    then have "?b - 1 \<le> k" by simp
    then show ?thesis using assms(3,4) False by linarith
  qed
  have "y / 2 ^ ?s \<le> 2 ^ k / 2 ^ ?s" using assms(2) by (simp add: divide_right_mono)
  also have "\<dots> = 2 ^ (k - ?s)" using s_le by (simp add: power_diff)
  also have "\<dots> = of_int (2 ^ (k - ?s))" by simp
  finally have "round_even (y / 2 ^ ?s) \<le> 2 ^ (k - ?s)" by (rule round_even_le_int)
  then have "(of_int (round_even (y / 2 ^ ?s)) :: real) \<le> of_int (2 ^ (k - ?s))"
    using of_int_le_iff by blast
  then have "of_int (round_even (y / 2 ^ ?s)) * 2 ^ ?s \<le> (2::real) ^ (k - ?s) * 2 ^ ?s"
    by (simp add: mult_right_mono)
  also have "\<dots> = 2 ^ k" using s_le by (simp add: power_add[symmetric])
  finally show ?thesis by (simp add: rne_scaled_def Let_def)
qed

lemma rne_scaled_lower:
  assumes "2 ^ k \<le> y" and "0 < p"
  shows "2 ^ k \<le> rne_scaled p y"
proof -
  have y0: "0 \<le> y" using assms by (smt (verit) zero_le_power)
  let ?b = "floorlog 2 (nat \<lfloor>y\<rfloor>)"
  let ?s = "?b - p"
  have "(2::real) ^ k < 2 ^ ?b" using floorlog_real_bounds(1)[OF y0] assms by linarith
  then have kb: "k < ?b" by simp
  show ?thesis
  proof (cases "?s \<le> k")
    case True
    have "(2::real) ^ (k - ?s) = 2 ^ k / 2 ^ ?s" using True by (simp add: power_diff)
    also have "\<dots> \<le> y / 2 ^ ?s" using assms by (simp add: divide_right_mono)
    finally have "of_int (2 ^ (k - ?s)) \<le> y / 2 ^ ?s" by simp
    then have "2 ^ (k - ?s) \<le> round_even (y / 2 ^ ?s)" by (rule round_even_ge_int)
    then have "(of_int (2 ^ (k - ?s)) :: real) \<le> of_int (round_even (y / 2 ^ ?s))"
      using of_int_le_iff by blast
    then have "(2::real) ^ (k - ?s) * 2 ^ ?s \<le> of_int (round_even (y / 2 ^ ?s)) * 2 ^ ?s"
      by (simp add: mult_right_mono)
    moreover have "(2::real) ^ (k - ?s) * 2 ^ ?s = 2 ^ k" using True by (simp add: power_add[symmetric])
    ultimately show ?thesis by (simp add: rne_scaled_def Let_def)
  next
    case False
    then have sk: "k < ?s" by simp
    then have bpos: "0 < ?b" by simp
    have "2 ^ (?b - 1) \<le> y" using floorlog_real_bounds(2)[OF y0 bpos] .
    then have "(2::real) ^ (?b - 1) / 2 ^ ?s \<le> y / 2 ^ ?s" by (simp add: divide_right_mono)
    moreover have "(1::real) \<le> 2 ^ (?b - 1) / 2 ^ ?s"
    proof -
      have "?s \<le> ?b - 1" using sk assms(2) by linarith
      then have "(2::real) ^ ?s \<le> 2 ^ (?b - 1)" by simp
      then show ?thesis by simp
    qed
    ultimately have "1 \<le> y / 2 ^ ?s" by (rule order_trans[rotated])
    then have "of_int 1 \<le> y / 2 ^ ?s" by simp
    then have "1 \<le> round_even (y / 2 ^ ?s)" by (rule round_even_ge_int)
    then have "(1::real) \<le> of_int (round_even (y / 2 ^ ?s))" by linarith
    then have "(1::real) * 2 ^ ?s \<le> of_int (round_even (y / 2 ^ ?s)) * 2 ^ ?s"
      by (rule mult_right_mono) simp
    then have "(2::real) ^ ?s \<le> of_int (round_even (y / 2 ^ ?s)) * 2 ^ ?s" by simp
    moreover have "(2::real) ^ k \<le> 2 ^ ?s" using sk by simp
    ultimately have "(2::real) ^ k \<le> of_int (round_even (y / 2 ^ ?s)) * 2 ^ ?s" by (rule order_trans[rotated])
    then show ?thesis by (simp only: rne_scaled_def Let_def)
  qed
qed

lemma rne_scaled_mono:
  assumes "0 \<le> a" and "a \<le> b" and "0 < p"
  shows "rne_scaled p a \<le> rne_scaled p b"
proof -
  let ?ba = "floorlog 2 (nat \<lfloor>a\<rfloor>)"
  let ?bb = "floorlog 2 (nat \<lfloor>b\<rfloor>)"
  have b0: "0 \<le> b" using assms by linarith
  have le: "?ba \<le> ?bb" using assms by (intro floorlog_mono nat_mono floor_mono)
  show ?thesis
  proof (cases "?ba - p = ?bb - p")
    case True
    have "a / 2 ^ (?bb - p) \<le> b / 2 ^ (?bb - p)" using assms by (simp add: divide_right_mono)
    then have "round_even (a / 2 ^ (?bb - p)) \<le> round_even (b / 2 ^ (?bb - p))"
      by (rule round_even_mono)
    then have "(of_int (round_even (a / 2 ^ (?bb - p))) :: real) \<le> of_int (round_even (b / 2 ^ (?bb - p)))"
      using of_int_le_iff by blast
    then show ?thesis using True by (simp add: rne_scaled_def Let_def mult_right_mono)
  next
    case False
    then have lt: "?ba - p < ?bb - p" using le by linarith
    then have pb: "p < ?bb" and bpos: "0 < ?bb" by linarith+
    define k where "k = max ?ba p"
    have k1: "k \<le> ?bb - 1" unfolding k_def using lt by linarith
    have "a \<le> 2 ^ ?ba" using floorlog_real_bounds(1)[OF assms(1)] by simp
    also have "(2::real) ^ ?ba \<le> 2 ^ k" by (simp add: k_def)
    finally have "rne_scaled p a \<le> 2 ^ k" using rne_scaled_upper[OF assms(1), of k p] assms(3) by (simp add: k_def)
    moreover have "2 ^ k \<le> rne_scaled p b"
    proof -
      have "(2::real) ^ k \<le> 2 ^ (?bb - 1)" using k1 by simp
      also have "\<dots> \<le> b" using floorlog_real_bounds(2)[OF b0 bpos] .
      finally show ?thesis using assms(3) by (rule rne_scaled_lower)
    qed
    ultimately show ?thesis by linarith
  qed
qed

lemma rne_zero [simp]: "rne p 0 = 0"
  by (simp add: rne_def)

lemma rne_minus: "rne p (- x) = - rne p x"
  by (simp add: rne_def Let_def sgn_minus)

lemma rne_nonneg: assumes "0 \<le> x" shows "0 \<le> rne p x"
proof (cases "p = 0")
  case True then show ?thesis using assms by (simp add: rne_def)
next
  case False
  have "0 \<le> rne_scaled p (\<bar>x\<bar> * 2 ^ (1021 + p)) / 2 ^ (1021 + p)"
    by (intro divide_nonneg_nonneg rne_scaled_nonneg) simp_all
  then show ?thesis using assms False by (simp add: rne_alt sgn_real_def)
qed

lemma rne_mono_nonneg:
  assumes "0 \<le> a" and "a \<le> b" shows "rne p a \<le> rne p b"
proof (cases "p = 0")
  case True then show ?thesis using assms by (simp add: rne_def)
next
  case False
  have b0: "0 \<le> b" using assms by linarith
  have "rne_scaled p (\<bar>a\<bar> * 2 ^ (1021 + p)) \<le> rne_scaled p (\<bar>b\<bar> * 2 ^ (1021 + p))"
    using assms b0 False by (intro rne_scaled_mono) (simp_all add: mult_right_mono)
  then have le: "rne_scaled p (\<bar>a\<bar> * 2 ^ (1021 + p)) / 2 ^ (1021 + p) \<le>
                 rne_scaled p (\<bar>b\<bar> * 2 ^ (1021 + p)) / 2 ^ (1021 + p)"
    by (simp add: divide_right_mono)
  show ?thesis
  proof (cases "a = 0")
    case True then show ?thesis using rne_nonneg[OF b0] by simp
  next
    case False
    then have "0 < a" "0 < b" using assms by linarith+
    then show ?thesis using le \<open>p \<noteq> 0\<close> by (simp add: rne_alt)
  qed
qed

lemma rne_mono: assumes "a \<le> b" shows "rne p a \<le> rne p b"
proof -
  consider "0 \<le> a" | "a < 0" "0 \<le> b" | "b < 0" using assms by linarith
  then show ?thesis
  proof cases
    case 1 then show ?thesis using assms by (rule rne_mono_nonneg)
  next
    case 2
    have "rne p a = - rne p (- a)" by (simp add: rne_minus)
    moreover have "0 \<le> rne p (- a)" using 2 by (intro rne_nonneg) simp
    moreover have "0 \<le> rne p b" using 2 by (intro rne_nonneg)
    ultimately show ?thesis by linarith
  next
    case 3
    have "rne p (- b) \<le> rne p (- a)" using 3 assms by (intro rne_mono_nonneg) simp_all
    then show ?thesis by (simp add: rne_minus)
  qed
qed

text \<open>Values that need few bits are not changed by the rounding.\<close>

lemma rne_scaled_exact:
  assumes "y = of_int n * 2 ^ j" and "0 \<le> n" and "n < 2 ^ p"
  shows "rne_scaled p y = y"
proof -
  have y0: "0 \<le> y" using assms by simp
  let ?b = "floorlog 2 (nat \<lfloor>y\<rfloor>)"
  let ?s = "?b - p"
  have "y < 2 ^ (p + j)"
  proof -
    have "(of_int n :: real) < of_int (2 ^ p)" using assms(3) of_int_less_iff by blast
    then have "of_int n * (2::real) ^ j < 2 ^ p * 2 ^ j" by (simp add: mult_strict_right_mono)
    then show ?thesis using assms(1) by (simp add: power_add)
  qed
  have sj: "?s \<le> j"
  proof (cases "?b = 0")
    case True then show ?thesis by simp
  next
    case False
    then have "2 ^ (?b - 1) \<le> y" using floorlog_real_bounds(2)[OF y0] by simp
    then have "(2::real) ^ (?b - 1) < 2 ^ (p + j)" using \<open>y < 2 ^ (p + j)\<close> by linarith
    then have "?b - 1 < p + j" by simp
    then show ?thesis by linarith
  qed
  have "y / 2 ^ ?s = of_int n * 2 ^ (j - ?s)" using sj assms(1) by (simp add: power_diff)
  also have "\<dots> = of_int (n * 2 ^ (j - ?s))" by simp
  finally have "round_even (y / 2 ^ ?s) = n * 2 ^ (j - ?s)" by (simp only: round_even_of_int)
  then have "rne_scaled p y = of_int (n * 2 ^ (j - ?s)) * 2 ^ ?s" by (simp add: rne_scaled_def Let_def)
  also have "\<dots> = of_int n * (2 ^ (j - ?s) * 2 ^ ?s)" by simp
  also have "(2::real) ^ (j - ?s) * 2 ^ ?s = 2 ^ j" using sj by (simp add: power_add[symmetric])
  finally show ?thesis using assms(1) by simp
qed

lemma rne_exact:
  assumes "\<bar>x\<bar> * 2 ^ k \<in> \<int>" and "\<bar>x\<bar> * 2 ^ k < 2 ^ p" and "k \<le> 1021 + p"
  shows "rne p x = x"
proof (cases "p = 0")
  case True then show ?thesis by (simp add: rne_def)
next
  case False
  obtain n :: int where n: "\<bar>x\<bar> * 2 ^ k = of_int n" using assms(1) by (auto elim: Ints_cases)
  have n0: "0 \<le> n"
  proof -
    have "(0::real) \<le> of_int n" using n by (metis abs_ge_zero mult_nonneg_nonneg zero_le_numeral zero_le_power)
    then show ?thesis by simp
  qed
  have np: "n < 2 ^ p"
  proof -
    have "(of_int n :: real) < of_int (2 ^ p)" using assms(2) n by simp
    then show ?thesis using of_int_less_iff by blast
  qed
  have "\<bar>x\<bar> * 2 ^ (1021 + p) = \<bar>x\<bar> * 2 ^ k * 2 ^ (1021 + p - k)"
    using assms(3) by (simp add: power_add[symmetric])
  also have "\<dots> = of_int n * 2 ^ (1021 + p - k)" using n by simp
  finally have "rne_scaled p (\<bar>x\<bar> * 2 ^ (1021 + p)) = \<bar>x\<bar> * 2 ^ (1021 + p)"
    using rne_scaled_exact[OF _ n0 np] by simp
  then show ?thesis using False by (simp add: rne_alt sgn_real_def)
qed


lemma fl_not_NaN [simp]: "fl x \<noteq> NaN"
  by (simp add: fl_def Let_def)

lemma fl_zero [simp]: "fl 0 = Fin 0"
  by (simp add: fl_def)

lemma fl_minus: "fl (- x) = - fl x"
  by (simp add: fl_def Let_def rne_minus)

lemma Fin_le_iff [simp]: "(Fin a \<le> Fin b) = (a \<le> b)"
  by (auto simp: less_eq_npfloat_def)

lemma fl_mono: assumes "x \<le> y" shows "fl x \<le> fl y"
proof -
  have "rne LENGTH('a) x \<le> rne LENGTH('a) y" using assms by (rule rne_mono)
  then show "(fl x :: 'a::len0 npfloat) \<le> fl y"
    by (auto simp: fl_def Let_def less_eq_npfloat_def abs_real_def split: if_splits)
qed

lemma fl_exact_unrounded:
  "\<bar>x\<bar> < 2 ^ 1024 \<Longrightarrow> LENGTH('p::len0) = 0 \<Longrightarrow> (fl x :: 'p npfloat) = Fin x"
  by (simp add: fl_def rne_def)

lemma fl_exact:
  assumes "\<bar>x\<bar> * 2 ^ k \<in> \<int>" and "\<bar>x\<bar> * 2 ^ k < 2 ^ LENGTH('p::len0)"
    and "k \<le> 1021 + LENGTH('p)" and "\<bar>x\<bar> < 2 ^ 1024"
  shows "(fl x :: 'p npfloat) = Fin x"
  using rne_exact[OF assms(1,2,3)] assms(4) by (simp add: fl_def)

lemma fl_grid [simp]:
  "x * 1048576 \<in> \<int> \<Longrightarrow> \<bar>x\<bar> \<le> 1048576 \<Longrightarrow> (fl x :: 53 npfloat) = Fin x"
proof -
  assume a: "x * 1048576 \<in> \<int>" and b: "\<bar>x\<bar> \<le> 1048576"
  have "\<bar>x\<bar> * 2 ^ 20 = \<bar>x * 1048576\<bar>" by (simp add: abs_mult)
  then have 1: "\<bar>x\<bar> * 2 ^ 20 \<in> \<int>" using a by simp
  have 2: "\<bar>x\<bar> * 2 ^ 20 < 2 ^ LENGTH(53)" using b by simp
  have 3: "\<bar>x\<bar> < 2 ^ 1024"
  proof -
    have "(1048576::real) = 2 ^ 20" by simp
    also have "\<dots> < 2 ^ 1024" by (rule power_strict_increasing) simp_all
    finally show ?thesis using b by linarith
  qed
  show ?thesis by (rule fl_exact[OF 1 2 _ 3]) simp
qed

lemma fl_small_unrounded [simp]:
  "\<bar>x\<bar> \<le> 1048576 \<Longrightarrow> (fl x :: 0 npfloat) = Fin x"
proof -
  assume b: "\<bar>x\<bar> \<le> 1048576"
  have "(1048576::real) = 2 ^ 20" by simp
  also have "\<dots> < 2 ^ 1024" by (rule power_strict_increasing) simp_all
  finally show ?thesis using b by (intro fl_exact_unrounded) (linarith, simp)
qed

section \<open>Arithmetic of the float model\<close>

lemma Fin_minus [simp]: "Fin a - Fin b = fl (a - b)"
  by (simp add: minus_npfloat_def)

lemma plus_NaN_right [simp]: "x + NaN = NaN" by (cases x) simp_all
lemma times_NaN_right [simp]: "x * NaN = NaN" by (cases x) simp_all
lemma divide_NaN_right [simp]: "x / NaN = NaN" by (cases x) simp_all
lemma minus_NaN_left [simp]: "NaN - x = NaN" by (simp add: minus_npfloat_def)
lemma minus_NaN_right [simp]: "x - NaN = NaN" by (simp add: minus_npfloat_def)

lemma Fin_less_iff [simp]: "(Fin a < Fin b) = (a < b)"
  by simp

lemma fl_between:
  assumes "a \<le> x" and "x \<le> b" and "fl a = (Fin a :: 'p::len0 npfloat)" and "fl b = (Fin b :: 'p npfloat)"
  shows "\<exists>y. (fl x :: 'p npfloat) = Fin y \<and> a \<le> y \<and> y \<le> b"
proof -
  have 1: "(Fin a :: 'p npfloat) \<le> fl x" using fl_mono[OF assms(1), where 'a='p] assms(3) by simp
  have 2: "(fl x :: 'p npfloat) \<le> Fin b" using fl_mono[OF assms(2), where 'a='p] assms(4) by simp
  show ?thesis
  proof (cases "fl x :: 'p npfloat")
    case (Fin y) then show ?thesis using 1 2 by simp
  next
    case PInf then show ?thesis using 2 by (simp add: less_eq_npfloat_def)
  next
    case MInf then show ?thesis using 1 by (simp add: less_eq_npfloat_def)
  next
    case NaN then show ?thesis using 1 by (simp add: less_eq_npfloat_def)
  qed
qed

text \<open>Values of binary64 on a finer grid, and the literal \<open>1e-10\<close> between two of them.\<close>

lemma fl_grid_fine:
  "x * 2 ^ 40 \<in> \<int> \<Longrightarrow> \<bar>x\<bar> \<le> 4096 \<Longrightarrow> (fl x :: 53 npfloat) = Fin x"
proof -
  assume a: "x * 2 ^ 40 \<in> \<int>" and b: "\<bar>x\<bar> \<le> 4096"
  have "\<bar>x\<bar> * 2 ^ 40 = \<bar>x * 2 ^ 40\<bar>" by (simp add: abs_mult)
  then have 1: "\<bar>x\<bar> * 2 ^ 40 \<in> \<int>" using a by simp
  have "\<bar>x\<bar> * 2 ^ 40 \<le> 4096 * 2 ^ 40" using b by simp
  also have "\<dots> < (2::real) ^ 53" by simp
  finally have 2: "\<bar>x\<bar> * 2 ^ 40 < 2 ^ LENGTH(53)" by simp
  have "(4096::real) = 2 ^ 12" by simp
  also have "\<dots> < 2 ^ 1024" by (rule power_strict_increasing) simp_all
  finally have 3: "\<bar>x\<bar> < 2 ^ 1024" using b by linarith
  show ?thesis by (rule fl_exact[OF 1 2 _ 3]) simp
qed

lemma slack_bounds: "\<exists>s. (slack :: 53 npfloat) = Fin s \<and> 1 / 2 ^ 34 \<le> s \<and> s \<le> 1 / 2 ^ 33"
  unfolding slack_def
  by (rule fl_between) (simp_all add: fl_grid_fine)

section \<open>Validation of the swaption dates\<close>

lemma swaption_payment_dates:
  "np_arange (Fin (3/2)) (Fin 3 + slack) (Fin (1/2)) =
   Inr [Fin (3/2), Fin 2, Fin (5/2), Fin 3 :: 53 npfloat]"
proof -
  obtain s where s: "(slack :: 53 npfloat) = Fin s" "1 / 2 ^ 34 \<le> s" "s \<le> 1 / 2 ^ 33"
    using slack_bounds by blast
  have "\<exists>u. (fl (3 + s) :: 53 npfloat) = Fin u \<and> 3 + 1 / 2 ^ 34 \<le> u \<and> u \<le> 3 + 1 / 2 ^ 33"
    using s by (intro fl_between) (simp_all add: fl_grid_fine)
  then obtain u where u: "(fl (3 + s) :: 53 npfloat) = Fin u" "3 + 1 / 2 ^ 34 \<le> u" "u \<le> 3 + 1 / 2 ^ 33"
    by blast
  have "\<exists>w. (fl (u - 3/2) :: 53 npfloat) = Fin w \<and> 3/2 + 1 / 2 ^ 34 \<le> w \<and> w \<le> 3/2 + 1 / 2 ^ 33"
    using u by (intro fl_between) (simp_all add: fl_grid_fine)
  then obtain w where w: "(fl (u - 3/2) :: 53 npfloat) = Fin w" "3/2 + 1 / 2 ^ 34 \<le> w" "w \<le> 3/2 + 1 / 2 ^ 33"
    by blast
  have "\<exists>v. (fl (w * 2) :: 53 npfloat) = Fin v \<and> 3 + 1 / 2 ^ 33 \<le> v \<and> v \<le> 3 + 1 / 2 ^ 32"
    using w by (intro fl_between) (simp_all add: fl_grid_fine)
  then obtain v where v: "(fl (w * 2) :: 53 npfloat) = Fin v" "3 + 1 / 2 ^ 33 \<le> v" "v \<le> 3 + 1 / 2 ^ 32"
    by blast
  have "3 < v" using v(2) by (smt (verit) divide_pos_pos zero_less_numeral zero_less_power)
  moreover have "v \<le> 4" using v(3) by (smt (verit) divide_le_eq_1_pos one_le_numeral one_le_power zero_less_numeral zero_less_power)
  ultimately have c: "\<lceil>v\<rceil> = 4" by linarith
  have w0: "w \<noteq> 0" using w(2) by (smt (verit) divide_pos_pos zero_less_numeral zero_less_power)
  show ?thesis
    by (simp add: np_arange_def py_div_def s u w v c upt_rec numeral_2_eq_2 numeral_3_eq_3)
qed


lemma default_vol_square:
  "\<exists>v2. scalar_square (PyFloat (fl (1 / 5)) :: 53 scalar) = Inr v2"
proof -
  have "\<exists>a. (fl (1 / 5) :: 53 npfloat) = Fin a \<and> 1 / 8 \<le> a \<and> a \<le> 1 / 4"
    by (rule fl_between) simp_all
  then obtain a where a: "(fl (1 / 5) :: 53 npfloat) = Fin a" "1 / 8 \<le> a" "a \<le> 1 / 4" by blast
  have "1 / 64 \<le> a * a" using a(2) mult_mono[of "1/8" a "1/8" a] by simp
  moreover have "a * a \<le> 1 / 16" using a(2,3) mult_mono[of a "1/4" a "1/4"] by simp
  ultimately have "\<exists>y. (fl (a * a) :: 53 npfloat) = Fin y \<and> 1 / 64 \<le> y \<and> y \<le> 1 / 16"
    by (intro fl_between) simp_all
  then show ?thesis using a(1) by (auto simp: py_square_def)
qed

lemma swaption_price_rejects_early:
  "expiry_date < underlying_swap_start \<Longrightarrow>
   swaption_price rm par valuation_date expiry_date underlying_swap_start underlying_swap_end
     strike payment_frequency notional volatility is_payer = Inl ValueError"
  by (simp add: swaption_price_def)

lemma swaption_price_late_expiry_value:
  "swaption_price flat_rate_model flat_par_rate (Fin 0) (Fin 2) (Fin 1) (Fin 3)
     (PyFloat (fl (3 / 100))) (Fin (1 / 2)) (Fin 1) None True =
   black_price (NpFloat (fl (3 / 100))) (PyFloat (fl (3 / 100)) :: 53 scalar) (Fin 2) (Fin 2)
     (PyFloat (fl (1 / 5))) True"
  by (simp add: swaption_price_def swaption_payment_dates flat_rate_model_def flat_par_rate_def
      py_max_def vol_or_default_def)

lemma black_price_default_returns:
  "\<exists>v. black_price (NpFloat (fl (3 / 100))) (PyFloat (fl (3 / 100)) :: 53 scalar) (Fin 2) (Fin 2)
          (PyFloat (fl (1 / 5))) True = Inr v"
proof -
  obtain v2 where "scalar_square (PyFloat (fl (1 / 5)) :: 53 scalar) = Inr v2"
    using default_vol_square by blast
  then show ?thesis by (simp add: black_price_def black_d1_d2_def Let_def)
qed

text \<open>
  C2: the claim asks that every call with \<open>expiry_date\<close> different from
  \<open>underlying_swap_start\<close> be rejected. The code rejects only \<open>expiry_date <
  underlying_swap_start\<close>: with expiry 2 and swap start 1 the call is not rejected, it
  reaches the Black valuation (annuity 2, two years to expiry) and returns its value.
\<close>

theorem swaption_price_late_expiry_accepted:
  "swaption_price flat_rate_model flat_par_rate (Fin 0) (Fin 2) (Fin 1) (Fin 3)
     (PyFloat (fl (3 / 100))) (Fin (1 / 2)) (Fin 1) None True =
   black_price (NpFloat (fl (3 / 100))) (PyFloat (fl (3 / 100)) :: 53 scalar) (Fin 2) (Fin 2)
     (PyFloat (fl (1 / 5))) True \<and>
   (\<exists>v. swaption_price flat_rate_model flat_par_rate (Fin 0) (Fin 2) (Fin 1) (Fin 3)
     (PyFloat (fl (3 / 100)) :: 53 scalar) (Fin (1 / 2)) (Fin 1) None True = Inr v) \<and>
   swaption_price flat_rate_model flat_par_rate (Fin 0) (Fin 1) (Fin 2) (Fin 3)
     (PyFloat (fl (3 / 100)) :: 53 scalar) (Fin (1 / 2)) (Fin 1) None True = Inl ValueError"
  using black_price_default_returns
  by (simp add: swaption_price_late_expiry_value swaption_price_rejects_early)

section \<open>Simulated paths: positivity and determinism\<close>

lemma draw_length: "length (fst (draw_standard_normals rng n g)) = n"
  by (induction n arbitrary: g) (simp_all add: split_def Let_def)

lemma np_maximum_zero_Fin [simp]: "np_maximum (Fin 0) (Fin x) = Fin (max 0 x)"
  by (simp add: np_maximum_def max_def)

lemma diffusion_zero:
  assumes "0 \<le> a" and "a \<le> 1" and "\<bar>c\<bar> \<le> 1"
  shows "Fin c * np_sqrt (Fin a) * Fin 0 = (Fin 0 :: 53 npfloat)"
proof -
  have "0 \<le> sqrt a" "sqrt a \<le> 1" using assms by simp_all
  then have "\<exists>s. (fl (sqrt a) :: 53 npfloat) = Fin s \<and> 0 \<le> s \<and> s \<le> 1"
    by (intro fl_between) simp_all
  then obtain s where s: "(fl (sqrt a) :: 53 npfloat) = Fin s" "0 \<le> s" "s \<le> 1" by blast
  have "\<bar>c * s\<bar> \<le> 1" using assms(3) s(2,3) by (simp add: abs_mult mult_le_one)
  then have "- 1 \<le> c * s" "c * s \<le> 1" by linarith+
  then have "\<exists>u. (fl (c * s) :: 53 npfloat) = Fin u \<and> - 1 \<le> u \<and> u \<le> 1"
    by (intro fl_between) simp_all
  then obtain u where "(fl (c * s) :: 53 npfloat) = Fin u" by blast
  then show ?thesis using assms(1) s(1) by simp
qed

lemma simulate_rates_example:
  "simulate_rates zero_rng (cir_example :: 53 cir_model) 1 (Some 42) g =
     Inr ([[Fin (1/32), Fin (9/256), Fin (79/2048)]], 2)"
proof -
  have d1: "Fin (1/8) * np_sqrt (Fin (1/128)) * Fin 0 = (Fin 0 :: 53 npfloat)"
    by (rule diffusion_zero) simp_all
  have d2: "Fin (1/8) * np_sqrt (Fin (9/1024)) * Fin 0 = (Fin 0 :: 53 npfloat)"
    by (rule diffusion_zero) simp_all
  have sq: "np_sqrt (Fin (1/4)) = (Fin (1/2) :: 53 npfloat)" by (simp add: real_sqrt_divide)
  show ?thesis
    by (simp del: np_sqrt.simps add: simulate_rates_def seed_if_given_def zero_rng_def cir_example_def
        np_random_normal_def unused_d_def py_square_def py_div_def cir_step_def Let_def
        upt_rec numeral_2_eq_2 numeral_3_eq_3 sq d1 d2)
qed

lemma simulate_rates_seeded_state:
  "simulate_rates rng m n_paths (Some seed) g1 = simulate_rates rng m n_paths (Some seed) g2"
  by (simp add: simulate_rates_def seed_if_given_def)

text \<open>
  C8: with a seed, the outcome of \<open>simulate_rates(n_paths, seed)\<close> does not depend on the
  state of the generator before the call; so a second call, made from the state the
  first one left, returns the same array, element for element.
\<close>

theorem simulate_rates_seeded_deterministic:
  "map_sum id fst (simulate_rates rng m n_paths (Some seed) g1) =
   map_sum id fst (simulate_rates rng m n_paths (Some seed) g2) \<and>
   (\<forall>rates g'. simulate_rates rng m n_paths (Some seed) g1 = Inr (rates, g') \<longrightarrow>
      (\<exists>g''. simulate_rates rng m n_paths (Some seed) g' = Inr (rates, g'')))"
proof (intro conjI allI impI)
  show "map_sum id fst (simulate_rates rng m n_paths (Some seed) g1) =
        map_sum id fst (simulate_rates rng m n_paths (Some seed) g2)"
    by (simp only: simulate_rates_seeded_state[of rng m n_paths seed g1 g2])
next
  fix rates g'
  assume "simulate_rates rng m n_paths (Some seed) g1 = Inr (rates, g')"
  then have "simulate_rates rng m n_paths (Some seed) g' = Inr (rates, g')"
    by (simp only: simulate_rates_seeded_state[of rng m n_paths seed g' g1])
  then show "\<exists>g''. simulate_rates rng m n_paths (Some seed) g' = Inr (rates, g'')" by blast
qed

theorem simulate_rates_seeded_deterministic_witness:
  "simulate_rates zero_rng (cir_example :: 53 cir_model) 1 (Some 42) (7::nat) =
     Inr ([[Fin (1/32), Fin (9/256), Fin (79/2048)]], 2) \<and>
   (\<exists>g''. simulate_rates zero_rng (cir_example :: 53 cir_model) 1 (Some 42) (2::nat) =
      Inr ([[Fin (1/32), Fin (9/256), Fin (79/2048)]], g''))"
  using simulate_rates_seeded_deterministic[of zero_rng "cir_example :: 53 cir_model" 1 42 7 7]
    simulate_rates_example
  by blast


end
